theory Spec2Isabelle
  imports Main
begin

section \<open>Feast: the in-memory registry and the on-demand transformation engine\<close>

text \<open>
  A shallow embedding of \<^verbatim>\<open>feast/infra/registry/memory.py\<close>,
  \<^verbatim>\<open>feast/on_demand_feature_view.py\<close> and
  \<^verbatim>\<open>feast/infra/registry/contrib/mysql/mysql_registry_store.py\<close>.
  Every \<^verbatim>\<open>raise\<close> of the Python is a value of \<open>error\<close>; a function that
  mutates returns the new state next to its outcome, also when it raises, because the
  Python keeps the mutations made before the exception.
\<close>

datatype error =
    RegistryError
  | FeatureViewNotFoundException
  | TypeError
  | KeyError
  | ValueError
  | AttributeError
  | DatabaseError
  | AssertionError
  | Exception

subsection \<open>Python dictionaries\<close>

text \<open>
  A Python \<^verbatim>\<open>dict\<close> keeps its keys in insertion order, so it is an association list
  with distinct keys. \<open>dict_set\<close> is \<^verbatim>\<open>d[k] = v\<close>: an existing key keeps its
  position, a new key goes last.
\<close>

type_synonym ('k, 'v) dict = "('k \<times> 'v) list"

definition dict_in :: "'k \<Rightarrow> ('k, 'v) dict \<Rightarrow> bool" where
  "dict_in k d = (map_of d k \<noteq> None)"

fun dict_set :: "('k, 'v) dict \<Rightarrow> 'k \<Rightarrow> 'v \<Rightarrow> ('k, 'v) dict" where
  "dict_set [] k v = [(k, v)]"
| "dict_set ((k', v') # d) k v =
     (if k' = k then (k, v) # d else (k', v') # dict_set d k v)"

definition dict_keys :: "('k, 'v) dict \<Rightarrow> 'k list" where
  "dict_keys d = map fst d"

definition dict_values :: "('k, 'v) dict \<Rightarrow> 'v list" where
  "dict_values d = map snd d"

lemma map_of_dict_set: "map_of (dict_set d k v) = (map_of d)(k \<mapsto> v)"
  by (induction d) (auto simp: fun_eq_iff)

lemma dict_in_dict_set: "dict_in k' (dict_set d k v) \<longleftrightarrow> k' = k \<or> dict_in k' d"
  by (simp add: dict_in_def map_of_dict_set)

lemma dict_keys_dict_set:
  "dict_keys (dict_set d k v) = (if dict_in k d then dict_keys d else dict_keys d @ [k])"
  by (induction d) (auto simp: dict_keys_def dict_in_def)

lemma distinct_dict_set:
  "distinct (dict_keys d) \<Longrightarrow> distinct (dict_keys (dict_set d k v))"
proof (cases "dict_in k d")
  case True
  assume "distinct (dict_keys d)"
  with True show ?thesis by (simp add: dict_keys_dict_set)
next
  case False
  assume "distinct (dict_keys d)"
  moreover from False have "k \<notin> set (dict_keys d)"
    by (simp add: dict_in_def dict_keys_def map_of_eq_None_iff)
  ultimately show ?thesis using False by (simp add: dict_keys_dict_set)
qed

lemma dict_in_keys: "dict_in k d \<longleftrightarrow> k \<in> set (dict_keys d)"
  by (simp add: dict_in_def dict_keys_def map_of_eq_None_iff)

lemma set_dict_keys_dict_set: "set (dict_keys (dict_set d k v)) = insert k (set (dict_keys d))"
  by (auto simp: dict_keys_dict_set dict_in_keys)

subsection \<open>Projected keys (memory.py, lines 31 to 38)\<close>

text \<open>\<^verbatim>\<open>str.split(":")\<close>: one segment more than there are colons.\<close>

fun split_colon :: "string \<Rightarrow> string list" where
  "split_colon [] = [[]]"
| "split_colon (c # cs) =
     (if c = CHR '':'' then [] # split_colon cs
      else (case split_colon cs of
              [] \<Rightarrow> [[c]]
            | s # ss \<Rightarrow> (c # s) # ss))"

definition project_key :: "string \<Rightarrow> string \<Rightarrow> string" where
  "project_key project key = project @ '':'' @ key"

definition invert_projected_key :: "string \<Rightarrow> error + (string \<times> string)" where
  "invert_projected_key projected_key =
     (let s = split_colon projected_key in
      if length s \<noteq> 2 then Inl RegistryError
      else Inr (s ! 0, s ! 1))"

subsection \<open>Facts about keys\<close>

lemma split_colon_not_Nil: "split_colon s \<noteq> []"
  by (induction s) (auto split: list.splits)

lemma split_colon_no_colon: "CHR '':'' \<notin> set s \<Longrightarrow> split_colon s = [s]"
  by (induction s) auto

lemma split_colon_prefix:
  "CHR '':'' \<notin> set p \<Longrightarrow> split_colon (p @ CHR '':'' # r) = p # split_colon r"
  by (induction p) auto

lemma length_split_colon: "length (split_colon s) = Suc (count_list s CHR '':'')"
proof (induction s)
  case Nil
  show ?case by simp
next
  case (Cons c cs)
  obtain x xs where "split_colon cs = x # xs"
    using split_colon_not_Nil [of cs] by (cases "split_colon cs") auto
  with Cons show ?case by auto
qed

lemma invert_project_key:
  assumes "CHR '':'' \<notin> set project" and "CHR '':'' \<notin> set key"
  shows "invert_projected_key (project_key project key) = Inr (project, key)"
  using assms
  by (simp add: invert_projected_key_def project_key_def split_colon_prefix split_colon_no_colon)

lemma invert_project_key_colon:
  assumes "CHR '':'' \<in> set key"
  shows "invert_projected_key (project_key project key) = Inl RegistryError"
proof -
  have "count_list key CHR '':'' > 0"
    using assms by (induction key) auto
  then have "length (split_colon (project_key project key)) > 2"
    by (simp add: length_split_colon project_key_def)
  then show ?thesis
    by (simp add: invert_projected_key_def Let_def)
qed

text \<open>A key that splits into a project and a name is the projected key of the two.\<close>

lemma split_colon_one: "split_colon s = [n] \<Longrightarrow> s = n"
proof (induction s arbitrary: n)
  case Nil
  then show ?case by simp
next
  case (Cons c cs)
  show ?case
  proof (cases "c = CHR '':''")
    case True
    with Cons.prems split_colon_not_Nil [of cs] show ?thesis by simp
  next
    case False
    obtain x xs where x: "split_colon cs = x # xs"
      using split_colon_not_Nil [of cs] by (cases "split_colon cs") auto
    with Cons.prems False have "n = c # x" "xs = []" by auto
    with x Cons.IH [of x] show ?thesis by simp
  qed
qed

lemma split_colon_two: "split_colon k = [p, n] \<Longrightarrow> k = p @ CHR '':'' # n"
proof (induction k arbitrary: p)
  case Nil
  then show ?case by simp
next
  case (Cons c cs)
  show ?case
  proof (cases "c = CHR '':''")
    case True
    with Cons.prems have "p = []" "split_colon cs = [n]" by auto
    with True split_colon_one [of cs n] show ?thesis by simp
  next
    case False
    obtain x xs where x: "split_colon cs = x # xs"
      using split_colon_not_Nil [of cs] by (cases "split_colon cs") auto
    with Cons.prems False have "p = c # x" "xs = [n]" by auto
    with x Cons.IH [of x] show ?thesis by simp
  qed
qed

lemma invert_projected_key_Inr:
  "invert_projected_key k = Inr (p, n) \<Longrightarrow> k = project_key p n"
proof -
  assume a: "invert_projected_key k = Inr (p, n)"
  then have len: "length (split_colon k) = 2"
    by (auto simp: invert_projected_key_def Let_def split: if_splits)
  then obtain x y where xy: "split_colon k = [x, y]"
    by (cases "split_colon k"; cases "tl (split_colon k)") auto
  with a have "x = p" "y = n"
    by (auto simp: invert_projected_key_def Let_def)
  with xy show ?thesis
    using split_colon_two [of k p n] by (simp add: project_key_def)
qed

subsection \<open>Objects, references and the registry state (memory.py, lines 47 to 71)\<close>

text \<open>
  Python objects are references: the registry stores the object it is handed, not a copy
  of it, and \<^verbatim>\<open>apply_materialization\<close> appends to the list the stored view holds.
  The model therefore has an explicit store: \<open>object_store\<close> maps an address to the
  attributes of the object there, \<open>list_store\<close> maps the address of a list object to its
  elements, and a registry dictionary maps a projected key to the address of the stored
  object. \<open>next_id\<close> is the next address a new object or a new list gets.

  An object carries the attributes memory.py reads or writes. \<open>is_valid_ok\<close> stands
  for \<^verbatim>\<open>Entity.is_valid()\<close>, whose class is not in the sources at hand: it is
  False when that call raises. A \<^verbatim>\<open>datetime\<close> is a number of ticks, and
  \<^verbatim>\<open>datetime.utcnow()\<close> is the argument \<open>now\<close> of the operation that reads the clock.
\<close>

datatype py_class =
    Entity | DataSource | FeatureService | StreamFeatureView | FeatureView
  | OnDemandFeatureView | RequestFeatureView | SavedDataset | OtherClass

type_synonym datetime = int

record py_object =
  obj_class :: py_class
  obj_name :: string
  created_timestamp :: "datetime option"
  last_updated_timestamp :: "datetime option"
  materialization_intervals :: nat
  is_valid_ok :: bool

record memory_registry =
  object_store :: "nat \<Rightarrow> py_object"
  list_store :: "nat \<Rightarrow> (datetime \<times> datetime) list"
  next_id :: nat
  entities :: "(string, nat) dict"
  data_sources :: "(string, nat) dict"
  feature_services :: "(string, nat) dict"
  stream_feature_views :: "(string, nat) dict"
  feature_views :: "(string, nat) dict"
  on_demand_feature_views :: "(string, nat) dict"
  request_feature_views :: "(string, nat) dict"
  saved_datasets :: "(string, nat) dict"

text \<open>What a holder of the reference \<open>a\<close> sees: the attributes and the elements of the nested list.\<close>

definition view_log :: "memory_registry \<Rightarrow> nat \<Rightarrow> (datetime \<times> datetime) list" where
  "view_log st a = list_store st (materialization_intervals (object_store st a))"


text \<open>
  A \<^verbatim>\<open>__copy__\<close> method, as far as the registry sees it: from the attributes and
  the intervals of the original to an exception, or to the attributes and the intervals
  of the copy.
\<close>

type_synonym class_copy =
  "py_object \<Rightarrow> (datetime \<times> datetime) list \<Rightarrow> error + py_object \<times> (datetime \<times> datetime) list"

text \<open>
  Modelled from the spec: the \<^verbatim>\<open>__copy__\<close> methods that \<^verbatim>\<open>copy.copy\<close> calls on
  an Entity, a DataSource, a FeatureService, a FeatureView, a StreamFeatureView or a
  RequestFeatureView. These classes are not in the sources at hand. The spec says that
  every read returns a value independent of internally held state: the copy is a new
  object, and its materialization log is a new list. Which attributes and which intervals
  the copy carries, and whether the method raises instead, is not said: that is the
  parameter \<open>class_copy\<close>, from the attributes and the log of the original to an exception
  or to the attributes and the log of the copy.

  \<^verbatim>\<open>OnDemandFeatureView.__copy__\<close> is in the sources
  (on_demand_feature_view.py, lines 146 to 159): it calls the constructor without the
  keyword-only argument \<^verbatim>\<open>mode\<close>, which has no default (line 83), so it raises
  TypeError.
\<close>

definition copy_copy ::
  "class_copy \<Rightarrow> memory_registry \<Rightarrow> nat \<Rightarrow> (error + nat) \<times> memory_registry" where
  "copy_copy class_copy st a =
     (if obj_class (object_store st a) = OnDemandFeatureView then (Inl TypeError, st)
      else case class_copy (object_store st a) (view_log st a) of
             Inl e \<Rightarrow> (Inl e, st)
           | Inr (attributes, intervals) \<Rightarrow>
               (Inr (next_id st),
                st\<lparr>object_store :=
                     (object_store st)
                       (next_id st := attributes\<lparr>materialization_intervals := next_id st\<rparr>),
                   list_store := (list_store st)(next_id st := intervals),
                   next_id := Suc (next_id st)\<rparr>))"

text \<open>
  \<^verbatim>\<open>list_registry_dict\<close> (lines 41 to 44): the comprehension walks the items in
  order; the filter \<^verbatim>\<open>invert_projected_key(k)[0] == project\<close> runs on every item and
  raises on a malformed key, the copy runs on the items that pass.
\<close>

fun list_registry_dict ::
  "class_copy \<Rightarrow> string \<Rightarrow> (string, nat) dict \<Rightarrow> memory_registry
     \<Rightarrow> (error + nat list) \<times> memory_registry" where
  "list_registry_dict class_copy project [] st = (Inr [], st)"
| "list_registry_dict class_copy project ((k, v) # registry) st =
     (case invert_projected_key k of
        Inl e \<Rightarrow> (Inl e, st)
      | Inr (p, n) \<Rightarrow>
          if p = project then
            (case copy_copy class_copy st v of
               (Inl e, st') \<Rightarrow> (Inl e, st')
             | (Inr c, st') \<Rightarrow>
                 (case list_registry_dict class_copy project registry st' of
                    (Inl e, st'') \<Rightarrow> (Inl e, st'')
                  | (Inr cs, st'') \<Rightarrow> (Inr (c # cs), st'')))
          else list_registry_dict class_copy project registry st)"

text \<open>
  Every \<^verbatim>\<open>get_*\<close> method with a body has the same one: build the key, raise
  RegistryError when the key is absent, return \<^verbatim>\<open>copy.copy\<close> of the stored object
  otherwise.
\<close>

definition retrieve ::
  "class_copy \<Rightarrow> (string, nat) dict \<Rightarrow> memory_registry \<Rightarrow> string \<Rightarrow> string
     \<Rightarrow> (error + nat) \<times> memory_registry" where
  "retrieve class_copy registry st name project =
     (let key = project_key project name in
      case map_of registry key of
        None \<Rightarrow> (Inl RegistryError, st)
      | Some a \<Rightarrow> copy_copy class_copy st a)"

definition get_entity where
  "get_entity class_copy st name project = retrieve class_copy (entities st) st name project"

definition list_entities where
  "list_entities class_copy st project = list_registry_dict class_copy project (entities st) st"

definition get_data_source where
  "get_data_source class_copy st name project =
     retrieve class_copy (data_sources st) st name project"

definition list_data_sources where
  "list_data_sources class_copy st project =
     list_registry_dict class_copy project (data_sources st) st"

definition get_feature_service where
  "get_feature_service class_copy st name project =
     retrieve class_copy (feature_services st) st name project"

definition list_feature_services where
  "list_feature_services class_copy st project =
     list_registry_dict class_copy project (feature_services st) st"

definition get_stream_feature_view where
  "get_stream_feature_view class_copy st name project =
     retrieve class_copy (stream_feature_views st) st name project"

definition list_stream_feature_views where
  "list_stream_feature_views class_copy st project =
     list_registry_dict class_copy project (stream_feature_views st) st"

definition get_on_demand_feature_view where
  "get_on_demand_feature_view class_copy st name project =
     retrieve class_copy (on_demand_feature_views st) st name project"

definition list_on_demand_feature_views where
  "list_on_demand_feature_views class_copy st project =
     list_registry_dict class_copy project (on_demand_feature_views st) st"

definition get_feature_view where
  "get_feature_view class_copy st name project =
     retrieve class_copy (feature_views st) st name project"

definition list_feature_views where
  "list_feature_views class_copy st project =
     list_registry_dict class_copy project (feature_views st) st"

definition get_request_feature_view where
  "get_request_feature_view class_copy st name project =
     retrieve class_copy (request_feature_views st) st name project"

definition list_request_feature_views where
  "list_request_feature_views class_copy st project =
     list_registry_dict class_copy project (request_feature_views st) st"

text \<open>
  \<^verbatim>\<open>get_saved_dataset\<close> (lines 496 to 511) and \<^verbatim>\<open>list_saved_datasets\<close>
  (lines 527 to 540) have the body \<^verbatim>\<open>pass\<close>: they return \<^verbatim>\<open>None\<close>, written
  \<open>Inr None\<close>, whatever \<^verbatim>\<open>apply_saved_dataset\<close> has stored.
\<close>

definition get_saved_dataset ::
  "memory_registry \<Rightarrow> string \<Rightarrow> string \<Rightarrow> (error + nat option) \<times> memory_registry" where
  "get_saved_dataset st name project = (Inr None, st)"

definition list_saved_datasets ::
  "memory_registry \<Rightarrow> string \<Rightarrow> (error + nat list option) \<times> memory_registry" where
  "list_saved_datasets st project = (Inr None, st)"

subsection \<open>Apply operations\<close>

text \<open>
  \<^verbatim>\<open>apply_entity\<close> (lines 92 to 110) stamps the entity it is handed before it looks
  for a duplicate, so the stamps stay when it raises. The outcome \<open>None\<close> is a normal
  return.
\<close>

definition apply_entity ::
  "memory_registry \<Rightarrow> nat \<Rightarrow> string \<Rightarrow> datetime \<Rightarrow> error option \<times> memory_registry" where
  "apply_entity st entity project now =
     (let e = object_store st entity in
      if \<not> is_valid_ok e then (Some ValueError, st)
      else
        let e' = e\<lparr>created_timestamp :=
                      (case created_timestamp e of None \<Rightarrow> Some now | Some t \<Rightarrow> Some t),
                    last_updated_timestamp := Some now\<rparr>;
            st' = st\<lparr>object_store := (object_store st)(entity := e')\<rparr>;
            key = project_key project (obj_name e')
        in if dict_in key (entities st') then (Some RegistryError, st')
           else (None, st'\<lparr>entities := dict_set (entities st') key entity\<rparr>))"

definition apply_data_source ::
  "memory_registry \<Rightarrow> nat \<Rightarrow> string \<Rightarrow> error option \<times> memory_registry" where
  "apply_data_source st data_source project =
     (let key = project_key project (obj_name (object_store st data_source)) in
      if dict_in key (data_sources st) then (Some RegistryError, st)
      else (None, st\<lparr>data_sources := dict_set (data_sources st) key data_source\<rparr>))"

definition apply_feature_service ::
  "memory_registry \<Rightarrow> nat \<Rightarrow> string \<Rightarrow> error option \<times> memory_registry" where
  "apply_feature_service st feature_service project =
     (let key = project_key project (obj_name (object_store st feature_service)) in
      if dict_in key (feature_services st) then (Some RegistryError, st)
      else (None, st\<lparr>feature_services := dict_set (feature_services st) key feature_service\<rparr>))"

definition apply_saved_dataset ::
  "memory_registry \<Rightarrow> nat \<Rightarrow> string \<Rightarrow> error option \<times> memory_registry" where
  "apply_saved_dataset st saved_dataset project =
     (let key = project_key project (obj_name (object_store st saved_dataset)) in
      if dict_in key (saved_datasets st) then (Some RegistryError, st)
      else (None, st\<lparr>saved_datasets := dict_set (saved_datasets st) key saved_dataset\<rparr>))"

text \<open>
  \<^verbatim>\<open>_fv_registry\<close> (lines 75 to 84): the \<^verbatim>\<open>isinstance\<close> chain, in its order. The
  class tag \<open>FeatureView\<close> stands for \<^verbatim>\<open>FeatureView\<close> and its subclasses other
  than \<^verbatim>\<open>StreamFeatureView\<close>.
\<close>

datatype fv_registry =
  StreamFeatureViews | FeatureViews | OnDemandFeatureViews | RequestFeatureViews

definition fv_registry_of :: "py_class \<Rightarrow> error + fv_registry" where
  "fv_registry_of c =
     (if c = StreamFeatureView then Inr StreamFeatureViews
      else if c = FeatureView then Inr FeatureViews
      else if c = OnDemandFeatureView then Inr OnDemandFeatureViews
      else if c = RequestFeatureView then Inr RequestFeatureViews
      else Inl RegistryError)"

fun fv_dict :: "fv_registry \<Rightarrow> memory_registry \<Rightarrow> (string, nat) dict" where
  "fv_dict StreamFeatureViews st = stream_feature_views st"
| "fv_dict FeatureViews st = feature_views st"
| "fv_dict OnDemandFeatureViews st = on_demand_feature_views st"
| "fv_dict RequestFeatureViews st = request_feature_views st"

fun fv_dict_update ::
  "fv_registry \<Rightarrow> (string, nat) dict \<Rightarrow> memory_registry \<Rightarrow> memory_registry" where
  "fv_dict_update StreamFeatureViews d st = st\<lparr>stream_feature_views := d\<rparr>"
| "fv_dict_update FeatureViews d st = st\<lparr>feature_views := d\<rparr>"
| "fv_dict_update OnDemandFeatureViews d st = st\<lparr>on_demand_feature_views := d\<rparr>"
| "fv_dict_update RequestFeatureViews d st = st\<lparr>request_feature_views := d\<rparr>"

definition apply_feature_view ::
  "memory_registry \<Rightarrow> nat \<Rightarrow> string \<Rightarrow> error option \<times> memory_registry" where
  "apply_feature_view st feature_view project =
     (case fv_registry_of (obj_class (object_store st feature_view)) of
        Inl e \<Rightarrow> (Some e, st)
      | Inr registry \<Rightarrow>
          let key = project_key project (obj_name (object_store st feature_view)) in
          if dict_in key (fv_dict registry st) then (Some RegistryError, st)
          else (None, fv_dict_update registry (dict_set (fv_dict registry st) key feature_view) st))"

text \<open>
  \<^verbatim>\<open>apply_materialization\<close> (lines 460 to 475): the batch dictionary is searched
  first, then the stream dictionary; the stored object itself is mutated in place.
\<close>

definition append_interval ::
  "memory_registry \<Rightarrow> nat \<Rightarrow> datetime \<Rightarrow> datetime \<Rightarrow> datetime \<Rightarrow> memory_registry" where
  "append_interval st fv start_date end_date now =
     (let l = materialization_intervals (object_store st fv);
          st' = st\<lparr>list_store := (list_store st)(l := list_store st l @ [(start_date, end_date)])\<rparr>
      in st'\<lparr>object_store :=
               (object_store st')(fv := (object_store st' fv)\<lparr>last_updated_timestamp := Some now\<rparr>)\<rparr>)"

definition apply_materialization ::
  "memory_registry \<Rightarrow> nat \<Rightarrow> string \<Rightarrow> datetime \<Rightarrow> datetime \<Rightarrow> datetime
     \<Rightarrow> error option \<times> memory_registry" where
  "apply_materialization st feature_view project start_date end_date now =
     (let key = project_key project (obj_name (object_store st feature_view)) in
      case map_of (feature_views st) key of
        Some fv \<Rightarrow> (None, append_interval st fv start_date end_date now)
      | None \<Rightarrow>
          (case map_of (stream_feature_views st) key of
             Some fv \<Rightarrow> (None, append_interval st fv start_date end_date now)
           | None \<Rightarrow> (Some FeatureViewNotFoundException, st)))"

subsection \<open>Building states\<close>

text \<open>
  \<^verbatim>\<open>MemoryRegistry.__init__\<close> (lines 48 to 71) makes the eight dictionaries, all
  empty. \<open>allocate\<close> is a caller constructing an object: it has no timestamps yet, and its
  materialization log is a new empty list.
\<close>

definition new_object :: "py_class \<Rightarrow> string \<Rightarrow> nat \<Rightarrow> py_object" where
  "new_object c n l =
     \<lparr>obj_class = c, obj_name = n, created_timestamp = None, last_updated_timestamp = None,
      materialization_intervals = l, is_valid_ok = True\<rparr>"

definition MemoryRegistry_init :: memory_registry where
  "MemoryRegistry_init =
     \<lparr>object_store = (\<lambda>_. new_object OtherClass [] 0), list_store = (\<lambda>_. []), next_id = 0,
      entities = [], data_sources = [], feature_services = [], stream_feature_views = [],
      feature_views = [], on_demand_feature_views = [], request_feature_views = [],
      saved_datasets = []\<rparr>"

definition allocate :: "memory_registry \<Rightarrow> py_class \<Rightarrow> string \<Rightarrow> nat \<times> memory_registry" where
  "allocate st c n =
     (next_id st,
      st\<lparr>object_store := (object_store st)(next_id st := new_object c n (next_id st)),
         list_store := (list_store st)(next_id st := []),
         next_id := Suc (next_id st)\<rparr>)"

text \<open>A registry holding one batch feature view, \<open>fv\<close> of project \<open>p\<close>, at address 0.\<close>

definition st_fv :: memory_registry where
  "st_fv = snd (apply_feature_view (snd (allocate MemoryRegistry_init FeatureView ''fv'')) 0 ''p'')"

lemma st_fv_simps:
  "feature_views st_fv = [(''p:fv'', 0)]"
  "stream_feature_views st_fv = []"
  "object_store st_fv 0 = new_object FeatureView ''fv'' 0"
  "list_store st_fv 0 = []"
  "next_id st_fv = 1"
  by (simp_all add: st_fv_def allocate_def MemoryRegistry_init_def apply_feature_view_def
        new_object_def fv_registry_of_def project_key_def dict_in_def)

text \<open>The same registry after the interval \<open>(1, 2)\<close> was recorded for \<open>fv\<close> at time 10.\<close>

definition st_fv_appended :: memory_registry where
  "st_fv_appended = snd (apply_materialization st_fv 0 ''p'' 1 2 10)"

lemma st_fv_appended_simps:
  "feature_views st_fv_appended = [(''p:fv'', 0)]"
  "stream_feature_views st_fv_appended = []"
  "obj_name (object_store st_fv_appended 0) = ''fv''"
  "obj_class (object_store st_fv_appended 0) = FeatureView"
  "materialization_intervals (object_store st_fv_appended 0) = 0"
  "last_updated_timestamp (object_store st_fv_appended 0) = Some 10"
  "list_store st_fv_appended 0 = [(1, 2)]"
  "next_id st_fv_appended = 1"
  by (simp_all add: st_fv_appended_def apply_materialization_def append_interval_def Let_def
        st_fv_simps project_key_def new_object_def)

subsection \<open>Materialization bookkeeping\<close>

text \<open>
  The entry a dictionary holds for a name in a project: the first item whose key splits
  into that project and that name.
\<close>

definition entry_named :: "(string, nat) dict \<Rightarrow> string \<Rightarrow> string \<Rightarrow> nat option" where
  "entry_named d project name =
     map_option snd (find (\<lambda>kv. invert_projected_key (fst kv) = Inr (project, name)) d)"

lemma map_of_project_key:
  assumes "CHR '':'' \<notin> set project" "CHR '':'' \<notin> set name"
  shows "map_of d (project_key project name) = entry_named d project name"
proof (induction d)
  case Nil
  show ?case by (simp add: entry_named_def)
next
  case (Cons kv d)
  have "fst kv = project_key project name \<longleftrightarrow>
        invert_projected_key (fst kv) = Inr (project, name)"
    using assms invert_project_key [of project name] invert_projected_key_Inr [of "fst kv" project name]
    by auto
  with Cons show ?case
    by (cases kv) (auto simp: entry_named_def)
qed

text \<open>
  C7 (as amended). For a project and a view name without a colon,
  \<^verbatim>\<open>apply_materialization\<close> locates the view by its name in the project: the entry
  of the batch dictionary for that name, or else the entry of the stream dictionary. When
  neither dictionary has an entry for the name, it raises FeatureViewNotFoundException
  and the state is the one it started from. Otherwise it returns normally, the located
  view's log is the old log followed by \<open>(s, e)\<close>, its \<open>last_updated_timestamp\<close> is the
  clock reading \<open>now\<close> of the call, and nothing but the log and that object's attributes
  changed.
\<close>

theorem apply_materialization_by_name:
  assumes "CHR '':'' \<notin> set project"
    and "CHR '':'' \<notin> set (obj_name (object_store st feature_view))"
  shows "(case (case entry_named (feature_views st) project
                       (obj_name (object_store st feature_view)) of
                  Some a \<Rightarrow> Some a
                | None \<Rightarrow> entry_named (stream_feature_views st) project
                            (obj_name (object_store st feature_view))) of
            None \<Rightarrow>
              apply_materialization st feature_view project s e now =
                (Some FeatureViewNotFoundException, st)
          | Some a \<Rightarrow>
              (\<exists>st'. apply_materialization st feature_view project s e now = (None, st') \<and>
                 view_log st' a = view_log st a @ [(s, e)] \<and>
                 last_updated_timestamp (object_store st' a) = Some now \<and>
                 st' = st\<lparr>list_store := list_store st', object_store := object_store st'\<rparr>))"
proof -
  have fv: "entry_named (feature_views st) project (obj_name (object_store st feature_view)) =
              map_of (feature_views st)
                (project_key project (obj_name (object_store st feature_view)))"
    using assms by (simp add: map_of_project_key)
  have sfv: "entry_named (stream_feature_views st) project
                (obj_name (object_store st feature_view)) =
              map_of (stream_feature_views st)
                (project_key project (obj_name (object_store st feature_view)))"
    using assms by (simp add: map_of_project_key)
  show ?thesis
    unfolding fv sfv
    by (auto simp: apply_materialization_def append_interval_def view_log_def Let_def
             split: option.splits)
qed

theorem apply_materialization_by_name_witness:
  "view_log st_fv_appended 0 = [(1, 2)] \<and>
   last_updated_timestamp (object_store st_fv_appended 0) = Some 10 \<and>
   (\<exists>st'. apply_materialization st_fv_appended 0 ''p'' 3 4 20 = (None, st') \<and>
          view_log st' 0 = [(1, 2), (3, 4)] \<and>
          last_updated_timestamp (object_store st' 0) = Some 20)"
  using apply_materialization_by_name [of "''p''" st_fv_appended 0 3 4 20]
  by (auto simp: st_fv_appended_simps entry_named_def invert_projected_key_def view_log_def)

text \<open>
  C7 as stated fails in two ways. The key is the plain concatenation of project and name,
  so the key of the name \<open>c\<close> in the project \<open>a:b\<close> is the key of the view \<open>b:c\<close> of
  project \<open>a\<close>: no view is named \<open>c\<close> in \<open>a:b\<close>, and the call appends to \<open>b:c\<close>
  instead of raising. And line 473 assigns the clock reading whatever the timestamp was:
  after an append at time 10, an append at a reading of 5 sets the timestamp back to 5.
\<close>

definition st_bc :: memory_registry where
  "st_bc =
     (let st1 = snd (allocate MemoryRegistry_init FeatureView ''b:c'');
          st2 = snd (allocate st1 FeatureView ''c'')
      in snd (apply_feature_view st2 0 ''a''))"

lemma st_bc_simps:
  "feature_views st_bc = [(''a:b:c'', 0)]"
  "stream_feature_views st_bc = []"
  "obj_name (object_store st_bc 0) = ''b:c''"
  "obj_name (object_store st_bc (Suc 0)) = ''c''"
  "materialization_intervals (object_store st_bc 0) = 0"
  "list_store st_bc 0 = []"
  by (simp_all add: st_bc_def allocate_def MemoryRegistry_init_def apply_feature_view_def
        new_object_def fv_registry_of_def project_key_def dict_in_def Let_def)

theorem apply_materialization_key_clash_and_clock:
  "entry_named (feature_views st_bc) ''a:b'' ''c'' = None \<and>
   entry_named (stream_feature_views st_bc) ''a:b'' ''c'' = None \<and>
   fst (apply_materialization st_bc 1 ''a:b'' 1 2 10) = None \<and>
   view_log (snd (apply_materialization st_bc 1 ''a:b'' 1 2 10)) 0 = [(1, 2)] \<and>
   last_updated_timestamp (object_store st_fv_appended 0) = Some 10 \<and>
   fst (apply_materialization st_fv_appended 0 ''p'' 3 4 5) = None \<and>
   last_updated_timestamp
     (object_store (snd (apply_materialization st_fv_appended 0 ''p'' 3 4 5)) 0) = Some 5"
proof -
  have a: "entry_named (feature_views st_bc) ''a:b'' ''c'' = None"
    by (simp add: entry_named_def st_bc_simps invert_projected_key_def)
  have b: "entry_named (stream_feature_views st_bc) ''a:b'' ''c'' = None"
    by (simp add: entry_named_def st_bc_simps)
  have c: "apply_materialization st_bc 1 ''a:b'' 1 2 10 = (None, append_interval st_bc 0 1 2 10)"
    by (simp add: apply_materialization_def st_bc_simps project_key_def)
  have d: "view_log (append_interval st_bc 0 1 2 10) 0 = [(1, 2)]"
    by (simp add: append_interval_def view_log_def Let_def st_bc_simps)
  have e: "apply_materialization st_fv_appended 0 ''p'' 3 4 5 =
             (None, append_interval st_fv_appended 0 3 4 5)"
    by (simp add: apply_materialization_def st_fv_appended_simps project_key_def)
  have f: "last_updated_timestamp (object_store (append_interval st_fv_appended 0 3 4 5) 0)
             = Some 5"
    by (simp add: append_interval_def Let_def)
  show ?thesis
    using a b c d e f by (simp add: st_fv_appended_simps)
qed

text \<open>
  Two appends in a row, at any clock readings: the log holds both intervals in the order
  of the calls, and the timestamp is each call's reading.
\<close>

lemma append_interval_simps:
  "feature_views (append_interval st a s e now) = feature_views st"
  "stream_feature_views (append_interval st a s e now) = stream_feature_views st"
  "obj_name (object_store (append_interval st a s e now) b) = obj_name (object_store st b)"
  "view_log (append_interval st a s e now) a = view_log st a @ [(s, e)]"
  "last_updated_timestamp (object_store (append_interval st a s e now) a) = Some now"
  by (simp_all add: append_interval_def view_log_def Let_def)

lemma apply_materialization_located:
  "apply_materialization st feature_view project s e now =
     (case (case map_of (feature_views st)
                  (project_key project (obj_name (object_store st feature_view))) of
              Some a \<Rightarrow> Some a
            | None \<Rightarrow> map_of (stream_feature_views st)
                        (project_key project (obj_name (object_store st feature_view)))) of
        None \<Rightarrow> (Some FeatureViewNotFoundException, st)
      | Some a \<Rightarrow> (None, append_interval st a s e now))"
  by (simp add: apply_materialization_def Let_def split: option.splits)

lemma apply_materialization_twice:
  assumes "apply_materialization st feature_view project s1 e1 now1 = (None, st1)"
  shows "\<exists>a st2. apply_materialization st1 feature_view project s2 e2 now2 = (None, st2) \<and>
           view_log st1 a = view_log st a @ [(s1, e1)] \<and>
           view_log st2 a = view_log st a @ [(s1, e1), (s2, e2)] \<and>
           last_updated_timestamp (object_store st1 a) = Some now1 \<and>
           last_updated_timestamp (object_store st2 a) = Some now2"
proof -
  let ?key = "project_key project (obj_name (object_store st feature_view))"
  let ?loc = "case map_of (feature_views st) ?key of
                Some a \<Rightarrow> Some a | None \<Rightarrow> map_of (stream_feature_views st) ?key"
  from assms obtain a where a: "?loc = Some a" and st1: "st1 = append_interval st a s1 e1 now1"
    by (auto simp: apply_materialization_located split: option.splits)
  have "apply_materialization st1 feature_view project s2 e2 now2 =
          (None, append_interval st1 a s2 e2 now2)"
    using a by (simp add: apply_materialization_located st1 append_interval_simps
                 cong: option.case_cong)
  then show ?thesis
    by (intro exI [of _ a] exI [of _ "append_interval st1 a s2 e2 now2"])
       (simp add: st1 append_interval_simps)
qed

subsection \<open>Reads as one family\<close>

text \<open>
  The read methods, indexed by the kind of object they read, so that a property of every
  read is one statement. \<open>run_read\<close> returns the addresses of the objects handed to the
  caller, none when the method returns \<^verbatim>\<open>None\<close>; \<open>read_result\<close> is what the caller
  sees through them. The read methods of validation references, project metadata and
  infra have the body \<^verbatim>\<open>pass\<close> and nothing is ever stored for them.
\<close>

datatype kind =
    EntityKind | DataSourceKind | FeatureServiceKind | StreamFeatureViewKind
  | FeatureViewKind | OnDemandFeatureViewKind | RequestFeatureViewKind | SavedDatasetKind

datatype read_op = Get kind string string | List kind string

definition single :: "(error + nat) \<times> memory_registry \<Rightarrow> (error + nat list) \<times> memory_registry" where
  "single res = (case res of (Inl e, st) \<Rightarrow> (Inl e, st) | (Inr c, st) \<Rightarrow> (Inr [c], st))"

definition optional ::
  "(error + nat option) \<times> memory_registry \<Rightarrow> (error + nat list) \<times> memory_registry" where
  "optional res =
     (case res of
        (Inl e, st) \<Rightarrow> (Inl e, st)
      | (Inr None, st) \<Rightarrow> (Inr [], st)
      | (Inr (Some c), st) \<Rightarrow> (Inr [c], st))"

definition optional_list ::
  "(error + nat list option) \<times> memory_registry \<Rightarrow> (error + nat list) \<times> memory_registry" where
  "optional_list res =
     (case res of
        (Inl e, st) \<Rightarrow> (Inl e, st)
      | (Inr None, st) \<Rightarrow> (Inr [], st)
      | (Inr (Some cs), st) \<Rightarrow> (Inr cs, st))"

fun run_read ::
  "class_copy \<Rightarrow> read_op \<Rightarrow> memory_registry \<Rightarrow> (error + nat list) \<times> memory_registry" where
  "run_read cc (Get EntityKind name project) st = single (get_entity cc st name project)"
| "run_read cc (Get DataSourceKind name project) st = single (get_data_source cc st name project)"
| "run_read cc (Get FeatureServiceKind name project) st =
     single (get_feature_service cc st name project)"
| "run_read cc (Get StreamFeatureViewKind name project) st =
     single (get_stream_feature_view cc st name project)"
| "run_read cc (Get FeatureViewKind name project) st = single (get_feature_view cc st name project)"
| "run_read cc (Get OnDemandFeatureViewKind name project) st =
     single (get_on_demand_feature_view cc st name project)"
| "run_read cc (Get RequestFeatureViewKind name project) st =
     single (get_request_feature_view cc st name project)"
| "run_read cc (Get SavedDatasetKind name project) st = optional (get_saved_dataset st name project)"
| "run_read cc (List EntityKind project) st = list_entities cc st project"
| "run_read cc (List DataSourceKind project) st = list_data_sources cc st project"
| "run_read cc (List FeatureServiceKind project) st = list_feature_services cc st project"
| "run_read cc (List StreamFeatureViewKind project) st = list_stream_feature_views cc st project"
| "run_read cc (List FeatureViewKind project) st = list_feature_views cc st project"
| "run_read cc (List OnDemandFeatureViewKind project) st =
     list_on_demand_feature_views cc st project"
| "run_read cc (List RequestFeatureViewKind project) st =
     list_request_feature_views cc st project"
| "run_read cc (List SavedDatasetKind project) st = optional_list (list_saved_datasets st project)"

fun registry_of :: "kind \<Rightarrow> memory_registry \<Rightarrow> (string, nat) dict" where
  "registry_of EntityKind st = entities st"
| "registry_of DataSourceKind st = data_sources st"
| "registry_of FeatureServiceKind st = feature_services st"
| "registry_of StreamFeatureViewKind st = stream_feature_views st"
| "registry_of FeatureViewKind st = feature_views st"
| "registry_of OnDemandFeatureViewKind st = on_demand_feature_views st"
| "registry_of RequestFeatureViewKind st = request_feature_views st"
| "registry_of SavedDatasetKind st = saved_datasets st"






lemma run_read_List:
  "k \<noteq> SavedDatasetKind \<Longrightarrow>
     run_read cc (List k project) st = list_registry_dict cc project (registry_of k st) st"
  by (cases k)
     (simp_all add: list_entities_def list_data_sources_def list_feature_services_def
        list_stream_feature_views_def list_feature_views_def list_on_demand_feature_views_def
        list_request_feature_views_def)

lemma run_read_SavedDataset:
  "run_read cc (Get SavedDatasetKind name project) st = (Inr [], st)"
  "run_read cc (List SavedDatasetKind project) st = (Inr [], st)"
  by (simp_all add: get_saved_dataset_def list_saved_datasets_def optional_def optional_list_def)

subsection \<open>What a read changes\<close>

text \<open>
  A read only allocates: \<open>extends st st'\<close> says that \<open>st'\<close> is \<open>st\<close> with more
  objects and lists, every older object, every older list and every dictionary as before.
\<close>

definition extends :: "memory_registry \<Rightarrow> memory_registry \<Rightarrow> bool" where
  "extends st st' =
     (st' = st\<lparr>object_store := object_store st', list_store := list_store st',
              next_id := next_id st'\<rparr> \<and>
      next_id st \<le> next_id st' \<and>
      (\<forall>a < next_id st. object_store st' a = object_store st a \<and>
                       list_store st' a = list_store st a))"



lemma extends_below:
  "extends st st' \<Longrightarrow> a < next_id st \<Longrightarrow>
     object_store st' a = object_store st a \<and> list_store st' a = list_store st a"
  by (simp add: extends_def)

lemma extends_next_id: "extends st st' \<Longrightarrow> next_id st \<le> next_id st'"
  by (simp add: extends_def)



lemma copy_copy_Inl: "copy_copy cc st a = (Inl e, st') \<Longrightarrow> st' = st"
  by (auto simp: copy_copy_def split: if_splits sum.splits)

lemma copy_copy_extends: "copy_copy cc st a = (r, st') \<Longrightarrow> extends st st'"
  by (auto simp: copy_copy_def extends_def split: if_splits sum.splits)


text \<open>An update of one object and one list, both allocated already and neither stored.\<close>

definition upd ::
  "nat \<Rightarrow> nat \<Rightarrow> py_object \<Rightarrow> (datetime \<times> datetime) list \<Rightarrow> memory_registry \<Rightarrow> memory_registry" where
  "upd c lc x l st =
     st\<lparr>object_store := (object_store st)(c := x), list_store := (list_store st)(lc := l)\<rparr>"







lemma registry_of_upd [simp]: "registry_of k (upd c lc x l st) = registry_of k st"
  by (cases k) (simp_all add: upd_def)







subsection \<open>Copies on read\<close>


text \<open>A \<^verbatim>\<open>__copy__\<close> that keeps every attribute and every interval.\<close>

definition keep_all :: class_copy where
  "keep_all attributes intervals = Inr (attributes, intervals)"






subsection \<open>Timestamps and duplicates\<close>

text \<open>
  What the apply operations do in general. \<^verbatim>\<open>apply_entity\<close> stamps a valid entity:
  \<open>created_timestamp\<close> keeps a value it already has. Once an object is applied, applying
  an object of the same name (and, for feature views, of the same class) to the same
  project raises RegistryError; the dictionaries stay as they are, and so does every
  object, except for the stamps \<^verbatim>\<open>apply_entity\<close> puts on its argument.
\<close>

lemma apply_entity_stamps:
  assumes "is_valid_ok (object_store st entity)"
  shows "last_updated_timestamp (object_store (snd (apply_entity st entity project now)) entity)
           = Some now \<and>
         created_timestamp (object_store (snd (apply_entity st entity project now)) entity)
           = Some (case created_timestamp (object_store st entity) of
                     None \<Rightarrow> now | Some t \<Rightarrow> t)"
  using assms by (simp add: apply_entity_def Let_def split: option.splits)

lemma apply_entity_duplicate:
  assumes "apply_entity st e project now = (None, st')"
    and "is_valid_ok (object_store st' e2)"
    and "obj_name (object_store st' e2) = obj_name (object_store st e)"
  shows "\<exists>st''. apply_entity st' e2 project now2 = (Some RegistryError, st'') \<and>
               entities st'' = entities st' \<and>
               (\<forall>a. a \<noteq> e2 \<longrightarrow> object_store st'' a = object_store st' a)"
  using assms
  by (auto simp: apply_entity_def Let_def dict_in_dict_set split: if_splits)

lemma fv_dict_fv_dict_update [simp]: "fv_dict r (fv_dict_update r d st) = d"
  by (cases r) simp_all

lemma object_store_fv_dict_update [simp]:
  "object_store (fv_dict_update r d st) = object_store st"
  by (cases r) simp_all

lemma apply_feature_view_duplicate:
  assumes "apply_feature_view st fv project = (None, st')"
    and "obj_class (object_store st fv2) = obj_class (object_store st fv)"
    and "obj_name (object_store st fv2) = obj_name (object_store st fv)"
  shows "apply_feature_view st' fv2 project = (Some RegistryError, st')"
  using assms
  by (auto simp: apply_feature_view_def Let_def dict_in_dict_set
           split: sum.splits if_splits)

lemma apply_feature_view_object_store:
  "object_store (snd (apply_feature_view st fv project)) = object_store st"
  by (simp add: apply_feature_view_def Let_def split: sum.splits)

lemma apply_data_source_duplicate:
  assumes "apply_data_source st ds project = (None, st')"
    and "obj_name (object_store st ds2) = obj_name (object_store st ds)"
  shows "apply_data_source st' ds2 project = (Some RegistryError, st')"
  using assms
  by (auto simp: apply_data_source_def Let_def dict_in_dict_set split: if_splits)

lemma apply_feature_service_duplicate:
  assumes "apply_feature_service st fs project = (None, st')"
    and "obj_name (object_store st fs2) = obj_name (object_store st fs)"
  shows "apply_feature_service st' fs2 project = (Some RegistryError, st')"
  using assms
  by (auto simp: apply_feature_service_def Let_def dict_in_dict_set split: if_splits)

lemma apply_saved_dataset_duplicate:
  assumes "apply_saved_dataset st sd project = (None, st')"
    and "obj_name (object_store st sd2) = obj_name (object_store st sd)"
  shows "apply_saved_dataset st' sd2 project = (Some RegistryError, st')"
  using assms
  by (auto simp: apply_saved_dataset_def Let_def dict_in_dict_set split: if_splits)

text \<open>An entity \<open>driver\<close> at address 0, and the registry after it is applied to project \<open>p\<close> at time 100.\<close>

definition st_entity :: memory_registry where
  "st_entity = snd (allocate MemoryRegistry_init Entity ''driver'')"

definition st_entity_applied :: memory_registry where
  "st_entity_applied = snd (apply_entity st_entity 0 ''p'' 100)"

text \<open>
  C6 at a failing input: the entity object already stored under \<open>p:driver\<close> is applied
  again at time 200. The second apply raises RegistryError and the dictionary still maps
  the key to the same object, but that object, which is the catalog's stored entry, now
  has \<open>last_updated_timestamp\<close> 200 instead of 100: \<^verbatim>\<open>apply_entity\<close> stamps its
  argument before it looks for the duplicate.
\<close>

theorem apply_entity_duplicate_restamps:
  "fst (apply_entity st_entity 0 ''p'' 100) = None \<and>
   map_of (entities st_entity_applied) (project_key ''p'' ''driver'') = Some 0 \<and>
   last_updated_timestamp (object_store st_entity_applied 0) = Some 100 \<and>
   fst (apply_entity st_entity_applied 0 ''p'' 200) = Some RegistryError \<and>
   map_of (entities (snd (apply_entity st_entity_applied 0 ''p'' 200)))
     (project_key ''p'' ''driver'') = Some 0 \<and>
   last_updated_timestamp (object_store (snd (apply_entity st_entity_applied 0 ''p'' 200)) 0)
     = Some 200"
  by (simp add: st_entity_applied_def st_entity_def allocate_def MemoryRegistry_init_def
        apply_entity_def new_object_def project_key_def dict_in_def Let_def)

text \<open>
  C5 at a failing input: a feature view without timestamps is applied successfully, and
  the stored object still has neither \<open>created_timestamp\<close> nor
  \<open>last_updated_timestamp\<close>. Only \<^verbatim>\<open>apply_entity\<close> stamps what it stores.
\<close>

theorem apply_feature_view_no_timestamps:
  "fst (apply_feature_view (snd (allocate MemoryRegistry_init FeatureView ''fv'')) 0 ''p'') = None \<and>
   st_fv = snd (apply_feature_view (snd (allocate MemoryRegistry_init FeatureView ''fv'')) 0 ''p'') \<and>
   map_of (feature_views st_fv) (project_key ''p'' ''fv'') = Some 0 \<and>
   created_timestamp (object_store st_fv 0) = None \<and>
   last_updated_timestamp (object_store st_fv 0) = None"
  by (simp add: st_fv_def allocate_def MemoryRegistry_init_def apply_feature_view_def
        new_object_def fv_registry_of_def project_key_def dict_in_def)

subsection \<open>Names with a colon\<close>

text \<open>
  \<open>copies_ok cc st d\<close>: every object stored in \<open>d\<close> was allocated, with its log, before
  it was stored, and \<^verbatim>\<open>copy.copy\<close> of it does not raise. \<open>keys_ok d\<close>: every key
  of \<open>d\<close> splits into a project and a name.
\<close>

definition copies_ok :: "class_copy \<Rightarrow> memory_registry \<Rightarrow> (string, nat) dict \<Rightarrow> bool" where
  "copies_ok cc st d =
     list_all (\<lambda>kv. snd kv < next_id st \<and>
                    materialization_intervals (object_store st (snd kv)) < next_id st \<and>
                    obj_class (object_store st (snd kv)) \<noteq> OnDemandFeatureView \<and>
                    (case cc (object_store st (snd kv)) (view_log st (snd kv)) of
                       Inl e \<Rightarrow> False | Inr copied \<Rightarrow> True)) d"

definition keys_ok :: "(string, nat) dict \<Rightarrow> bool" where
  "keys_ok d =
     list_all (\<lambda>kv. case invert_projected_key (fst kv) of Inl e \<Rightarrow> False | Inr pn \<Rightarrow> True) d"

lemma invert_projected_key_error: "invert_projected_key k = Inl e \<Longrightarrow> e = RegistryError"
  by (auto simp: invert_projected_key_def Let_def split: if_splits)

lemma dict_in_set: "dict_in k d \<Longrightarrow> \<exists>v. (k, v) \<in> set d"
  by (auto simp: dict_in_def dest: map_of_SomeD)

lemma list_registry_dict_bad_key:
  "(k, v) \<in> set d \<Longrightarrow> invert_projected_key k = Inl RegistryError \<Longrightarrow>
     \<exists>e. fst (list_registry_dict cc q d st) = Inl e"
proof (induction d arbitrary: st)
  case Nil
  then show ?case by simp
next
  case (Cons kv d)
  obtain k' v' where kv: "kv = (k', v')" by (cases kv)
  show ?case
  proof (cases "k' = k")
    case True
    with Cons.prems kv show ?thesis by simp
  next
    case False
    with Cons.prems kv have "(k, v) \<in> set d" by auto
    from Cons.IH [OF this Cons.prems(2)]
    have ih: "\<And>st. \<exists>e. fst (list_registry_dict cc q d st) = Inl e" .
    show ?thesis
    proof (cases "invert_projected_key k'")
      case (Inl e)
      with kv show ?thesis by simp
    next
      case (Inr pn)
      obtain p n where pn: "pn = (p, n)" by (cases pn)
      show ?thesis
      proof (cases "p = q")
        case False
        with kv Inr pn ih [of st] show ?thesis by simp
      next
        case True
        obtain rc st1 where cp: "copy_copy cc st v' = (rc, st1)" by (cases "copy_copy cc st v'")
        obtain r2 st2 where rec: "list_registry_dict cc q d st1 = (r2, st2)"
          by (cases "list_registry_dict cc q d st1")
        from ih [of st1] rec obtain e where "r2 = Inl e" by auto
        with kv Inr pn True cp rec show ?thesis by (cases rc) auto
      qed
    qed
  qed
qed

lemma copies_ok_extends:
  assumes "extends st st'" "copies_ok cc st d"
  shows "copies_ok cc st' d"
  unfolding copies_ok_def list_all_iff
proof
  fix kv assume "kv \<in> set d"
  with assms(2) have a: "snd kv < next_id st"
      "materialization_intervals (object_store st (snd kv)) < next_id st"
      "obj_class (object_store st (snd kv)) \<noteq> OnDemandFeatureView"
      "case cc (object_store st (snd kv)) (view_log st (snd kv)) of
         Inl e \<Rightarrow> False | Inr copied \<Rightarrow> True"
    by (auto simp: copies_ok_def list_all_iff)
  have o: "object_store st' (snd kv) = object_store st (snd kv)"
    using extends_below [OF assms(1) a(1)] by simp
  have l: "view_log st' (snd kv) = view_log st (snd kv)"
    using extends_below [OF assms(1) a(2)] o by (simp add: view_log_def)
  from a o l extends_next_id [OF assms(1)]
  show "snd kv < next_id st' \<and>
        materialization_intervals (object_store st' (snd kv)) < next_id st' \<and>
        obj_class (object_store st' (snd kv)) \<noteq> OnDemandFeatureView \<and>
        (case cc (object_store st' (snd kv)) (view_log st' (snd kv)) of
           Inl e \<Rightarrow> False | Inr copied \<Rightarrow> True)"
    by simp
qed

lemma copies_ok_copy:
  assumes "copies_ok cc st ((k, v) # d)"
  shows "\<exists>c st'. copy_copy cc st v = (Inr c, st') \<and> copies_ok cc st' d"
proof -
  from assms have ok: "obj_class (object_store st v) \<noteq> OnDemandFeatureView"
      "case cc (object_store st v) (view_log st v) of Inl e \<Rightarrow> False | Inr copied \<Rightarrow> True"
    and d: "copies_ok cc st d"
    by (auto simp: copies_ok_def)
  then obtain c st' where cp: "copy_copy cc st v = (Inr c, st')"
    by (auto simp: copy_copy_def split: sum.splits)
  from copies_ok_extends [OF copy_copy_extends [OF cp] d] cp show ?thesis by blast
qed

lemma list_registry_dict_RegistryError:
  "(k, v) \<in> set d \<Longrightarrow> invert_projected_key k = Inl RegistryError \<Longrightarrow> copies_ok cc st d \<Longrightarrow>
     fst (list_registry_dict cc q d st) = Inl RegistryError"
proof (induction d arbitrary: st)
  case Nil
  then show ?case by simp
next
  case (Cons kv d)
  obtain k' v' where kv: "kv = (k', v')" by (cases kv)
  from Cons.prems(3) kv have nd: "copies_ok cc st d" by (simp add: copies_ok_def)
  show ?case
  proof (cases "invert_projected_key k'")
    case (Inl e)
    with kv invert_projected_key_error [OF Inl] show ?thesis by simp
  next
    case (Inr pn)
    obtain p n where pn: "pn = (p, n)" by (cases pn)
    from Inr Cons.prems(1,2) kv have mem: "(k, v) \<in> set d" by auto
    show ?thesis
    proof (cases "p = q")
      case False
      with kv Inr pn Cons.IH [OF mem Cons.prems(2) nd] show ?thesis by simp
    next
      case True
      from Cons.prems(3) kv obtain c st1
        where cp: "copy_copy cc st v' = (Inr c, st1)" and ok1: "copies_ok cc st1 d"
        using copies_ok_copy by blast
      from Cons.IH [OF mem Cons.prems(2) ok1]
      have "fst (list_registry_dict cc q d st1) = Inl RegistryError" .
      with kv Inr pn True cp show ?thesis by (auto split: prod.splits sum.splits)
    qed
  qed
qed

lemma list_registry_dict_returns:
  "keys_ok d \<Longrightarrow> copies_ok cc st d \<Longrightarrow> \<exists>cs. fst (list_registry_dict cc q d st) = Inr cs"
proof (induction d arbitrary: st)
  case Nil
  then show ?case by simp
next
  case (Cons kv d)
  obtain k v where kv: "kv = (k, v)" by (cases kv)
  from Cons.prems kv obtain p n where inv: "invert_projected_key k = Inr (p, n)"
    and kd: "keys_ok d" and cd: "copies_ok cc st d"
    by (auto simp: keys_ok_def copies_ok_def split: sum.splits)
  show ?case
  proof (cases "p = q")
    case False
    with kv inv Cons.IH [OF kd cd] show ?thesis by simp
  next
    case True
    from Cons.prems(2) kv obtain c st1
      where cp: "copy_copy cc st v = (Inr c, st1)" and ok1: "copies_ok cc st1 d"
      using copies_ok_copy by blast
    from Cons.IH [OF kd ok1] obtain cs where "fst (list_registry_dict cc q d st1) = Inr cs" ..
    with kv inv True cp show ?thesis by (auto split: prod.splits sum.splits)
  qed
qed

text \<open>
  C10 (as amended). A project and a name without a colon come back from the projected
  key. For every kind whose list operation has a body (every kind but saved datasets):
  when a key whose name part has a colon is stored in the kind's dictionary, the list
  operation of that kind returns no result for any project, it raises, and what it raises
  is RegistryError when no copy raises; and when the keys of the kind's own dictionary
  are well formed and no copy raises, the list operation returns a result, whatever the
  dictionaries of the other kinds hold. \<^verbatim>\<open>list_saved_datasets\<close> returns
  \<^verbatim>\<open>None\<close> whatever is stored.
\<close>

theorem colon_in_name:
  "(CHR '':'' \<notin> set project \<and> CHR '':'' \<notin> set key \<longrightarrow>
      invert_projected_key (project_key project key) = Inr (project, key)) \<and>
   (k \<noteq> SavedDatasetKind \<and> CHR '':'' \<in> set key \<and>
    dict_in (project_key project key) (registry_of k st) \<longrightarrow>
      (\<exists>e. fst (run_read cc (List k q) st) = Inl e) \<and>
      (copies_ok cc st (registry_of k st) \<longrightarrow>
         fst (run_read cc (List k q) st) = Inl RegistryError)) \<and>
   (k \<noteq> SavedDatasetKind \<and> keys_ok (registry_of k st) \<and> copies_ok cc st (registry_of k st) \<longrightarrow>
      (\<exists>cs. fst (run_read cc (List k q) st) = Inr cs)) \<and>
   list_saved_datasets st q = (Inr None, st)"
proof (intro conjI impI)
  assume "CHR '':'' \<notin> set project \<and> CHR '':'' \<notin> set key"
  then show "invert_projected_key (project_key project key) = Inr (project, key)"
    by (simp add: invert_project_key)
next
  assume a: "k \<noteq> SavedDatasetKind \<and> CHR '':'' \<in> set key \<and>
             dict_in (project_key project key) (registry_of k st)"
  then have "dict_in (project_key project key) (registry_of k st)" by simp
  then obtain v where v: "(project_key project key, v) \<in> set (registry_of k st)"
    by (rule dict_in_set [THEN exE])
  from a have bad: "invert_projected_key (project_key project key) = Inl RegistryError"
    by (simp add: invert_project_key_colon)
  from a have k: "k \<noteq> SavedDatasetKind" by simp
  show "\<exists>e. fst (run_read cc (List k q) st) = Inl e"
    using list_registry_dict_bad_key [OF v bad, of cc q st] k by (simp add: run_read_List)
  assume "copies_ok cc st (registry_of k st)"
  then show "fst (run_read cc (List k q) st) = Inl RegistryError"
    using list_registry_dict_RegistryError [OF v bad, of cc st q] k by (simp add: run_read_List)
next
  assume "k \<noteq> SavedDatasetKind \<and> keys_ok (registry_of k st) \<and> copies_ok cc st (registry_of k st)"
  then show "\<exists>cs. fst (run_read cc (List k q) st) = Inr cs"
    using list_registry_dict_returns [of "registry_of k st" cc st q] by (simp add: run_read_List)
next
  show "list_saved_datasets st q = (Inr None, st)"
    by (simp add: list_saved_datasets_def)
qed

text \<open>
  An entity named \<open>a:b\<close> and a feature view named \<open>fv\<close>, both applied to project \<open>p\<close>.
\<close>

definition st_colon :: memory_registry where
  "st_colon =
     (let st1 = snd (allocate MemoryRegistry_init Entity ''a:b'');
          st2 = snd (allocate st1 FeatureView ''fv'');
          st3 = snd (apply_entity st2 0 ''p'' 100)
      in snd (apply_feature_view st3 1 ''p''))"

lemma st_colon_simps:
  "entities st_colon = [(''p:a:b'', 0)]"
  "feature_views st_colon = [(''p:fv'', 1)]"
  "data_sources st_colon = []"
  "obj_class (object_store st_colon 0) = Entity"
  "obj_class (object_store st_colon (Suc 0)) = FeatureView"
  "materialization_intervals (object_store st_colon 0) = 0"
  "materialization_intervals (object_store st_colon (Suc 0)) = Suc 0"
  "next_id st_colon = 2"
  by (simp_all add: st_colon_def allocate_def MemoryRegistry_init_def apply_entity_def
        apply_feature_view_def fv_registry_of_def new_object_def project_key_def dict_in_def
        Let_def)

theorem colon_in_name_witness:
  "invert_projected_key (project_key ''p'' ''fv'') = Inr (''p'', ''fv'') \<and>
   fst (run_read keep_all (List EntityKind ''q'') st_colon) = Inl RegistryError \<and>
   (\<exists>cs. fst (run_read keep_all (List FeatureViewKind ''p'') st_colon) = Inr cs)"
  using colon_in_name [where project = "''p''" and key = "''fv''" and k = EntityKind
                         and st = st_colon and cc = keep_all and q = "''q''"]
        colon_in_name [where project = "''p''" and key = "''a:b''" and k = EntityKind
                         and st = st_colon and cc = keep_all and q = "''q''"]
        colon_in_name [where project = "''p''" and key = "''fv''" and k = FeatureViewKind
                         and st = st_colon and cc = keep_all and q = "''p''"]
  by (simp add: st_colon_simps copies_ok_def keys_ok_def keep_all_def dict_in_def project_key_def
        invert_projected_key_def)

text \<open>
  C10 as stated fails: a saved dataset named \<open>a:b\<close> is applied and stored under
  \<open>p:a:b\<close>, and \<^verbatim>\<open>list_saved_datasets\<close> returns \<^verbatim>\<open>None\<close>; an entity
  named \<open>a:b\<close> is applied, \<^verbatim>\<open>list_entities\<close> raises RegistryError, and
  \<^verbatim>\<open>list_data_sources\<close>, a subsequent list operation too, returns the empty list.
\<close>

definition st_saved :: memory_registry where
  "st_saved =
     snd (apply_saved_dataset (snd (allocate MemoryRegistry_init SavedDataset ''a:b'')) 0 ''p'')"

theorem list_returns_after_colon_name:
  "fst (apply_saved_dataset (snd (allocate MemoryRegistry_init SavedDataset ''a:b'')) 0 ''p'')
     = None \<and>
   saved_datasets st_saved = [(''p:a:b'', 0)] \<and>
   fst (list_saved_datasets st_saved ''p'') = Inr None \<and>
   entities st_colon = [(''p:a:b'', 0)] \<and>
   fst (list_entities keep_all st_colon ''p'') = Inl RegistryError \<and>
   fst (list_data_sources keep_all st_colon ''p'') = Inr []"
proof -
  have "fst (apply_saved_dataset (snd (allocate MemoryRegistry_init SavedDataset ''a:b'')) 0 ''p'')
          = None"
    by (simp add: allocate_def MemoryRegistry_init_def apply_saved_dataset_def
          new_object_def project_key_def dict_in_def Let_def)
  moreover have "saved_datasets st_saved = [(''p:a:b'', 0)]"
    by (simp add: st_saved_def allocate_def MemoryRegistry_init_def apply_saved_dataset_def
          new_object_def project_key_def dict_in_def Let_def)
  moreover have "fst (list_saved_datasets st_saved ''p'') = Inr None"
    by (simp add: list_saved_datasets_def)
  moreover have "fst (list_entities keep_all st_colon ''p'') = Inl RegistryError"
    by (simp add: list_entities_def st_colon_simps invert_projected_key_def)
  moreover have "fst (list_data_sources keep_all st_colon ''p'') = Inr []"
    by (simp add: list_data_sources_def st_colon_simps)
  ultimately show ?thesis by (simp add: st_colon_simps)
qed

text \<open>
  Two on-demand feature views of project \<open>q\<close>, \<open>ok\<close> and then \<open>a:b\<close>. The list
  operation copies \<open>ok\<close> before it reaches the malformed key, and
  \<^verbatim>\<open>OnDemandFeatureView.__copy__\<close> raises TypeError.
\<close>

definition st_odfv :: memory_registry where
  "st_odfv =
     (let st1 = snd (allocate MemoryRegistry_init OnDemandFeatureView ''ok'');
          st2 = snd (allocate st1 OnDemandFeatureView ''a:b'');
          st3 = snd (apply_feature_view st2 0 ''q'')
      in snd (apply_feature_view st3 1 ''q''))"

lemma st_odfv_simps:
  "on_demand_feature_views st_odfv = [(''q:ok'', 0), (''q:a:b'', 1)]"
  "obj_class (object_store st_odfv 0) = OnDemandFeatureView"
  by (simp_all add: st_odfv_def allocate_def MemoryRegistry_init_def apply_feature_view_def
        new_object_def fv_registry_of_def project_key_def dict_in_def Let_def)

lemma list_on_demand_feature_views_TypeError:
  "fst (list_on_demand_feature_views cc st_odfv ''q'') = Inl TypeError \<and>
   fst (get_on_demand_feature_view cc st_odfv ''ok'' ''q'') = Inl TypeError"
  by (simp add: list_on_demand_feature_views_def get_on_demand_feature_view_def retrieve_def
        st_odfv_simps invert_projected_key_def copy_copy_def project_key_def)

subsection \<open>The MySQL registry store (mysql_registry_store.py)\<close>

text \<open>
  The store keeps rows \<open>(version, registry)\<close>; a serialized registry is a byte string and
  \<^verbatim>\<open>RegistryProto()\<close> is the empty one. \<open>conn_attr\<close> is the attribute
  \<^verbatim>\<open>self._conn\<close>: \<open>None\<close> while it has never been assigned, which is how
  \<^verbatim>\<open>__init__\<close> (lines 34 to 45) leaves it.
\<close>

datatype database = Unreachable | MissingTable | Table "(nat \<times> string) list"

record mysql_registry_store =
  db_config :: string
  table_name :: string
  conn_attr :: "bool option"

text \<open>
  \<^verbatim>\<open>_get_conn\<close> (lines 47 to 57) is declared with \<^verbatim>\<open>self\<close> alone; \<open>args\<close> are
  the further positional arguments of a call, and a call that passes any raises TypeError
  before the body runs. In the body, reading an attribute that was never assigned raises
  AttributeError, and \<^verbatim>\<open>pymysql.connect\<close> raises a DatabaseError when the server
  cannot be reached.
\<close>

definition get_conn ::
  "mysql_registry_store \<Rightarrow> string list \<Rightarrow> database \<Rightarrow> error + database" where
  "get_conn self args db =
     (if args \<noteq> [] then Inl TypeError
      else case conn_attr self of
             None \<Rightarrow> Inl AttributeError
           | Some True \<Rightarrow> Inr db
           | Some False \<Rightarrow> (if db = Unreachable then Inl DatabaseError else Inr db))"

text \<open>
  The query of lines 63 to 70:
  \<^verbatim>\<open>SELECT registry FROM t WHERE version = (SELECT max(version) FROM t)\<close>,
  then \<^verbatim>\<open>fetchone\<close>.
\<close>

definition max_version :: "(nat \<times> string) list \<Rightarrow> nat" where
  "max_version rows = fold max (map fst rows) 0"

definition select_latest :: "database \<Rightarrow> error + string option" where
  "select_latest conn =
     (case conn of
        Unreachable \<Rightarrow> Inl DatabaseError
      | MissingTable \<Rightarrow> Inl DatabaseError
      | Table rows \<Rightarrow> Inr (map_option snd (find (\<lambda>r. fst r = max_version rows) rows)))"

definition RegistryProto :: string where
  "RegistryProto = []"

text \<open>
  \<^verbatim>\<open>get_registry_proto\<close> (lines 59 to 75). The \<^verbatim>\<open>except\<close> clause catches
  \<^verbatim>\<open>pymysql.err.DatabaseError\<close> only; any other exception leaves the function.
\<close>

definition get_registry_proto :: "mysql_registry_store \<Rightarrow> database \<Rightarrow> error + string" where
  "get_registry_proto self db =
     (let registry_proto = RegistryProto;
          attempt =
            (case get_conn self [db_config self] db of
               Inl e \<Rightarrow> Inl e
             | Inr conn \<Rightarrow>
                 (case select_latest conn of
                    Inl e \<Rightarrow> Inl e
                  | Inr None \<Rightarrow> Inr registry_proto
                  | Inr (Some registry) \<Rightarrow> Inr registry))
      in case attempt of
           Inl e \<Rightarrow> (if e = DatabaseError then Inr registry_proto else Inl e)
         | Inr p \<Rightarrow> Inr p)"

text \<open>Whatever the store and the database, the call of \<^verbatim>\<open>_get_conn\<close> with an argument raises.\<close>

lemma get_registry_proto_TypeError: "get_registry_proto self db = Inl TypeError"
  by (simp add: get_registry_proto_def get_conn_def)

text \<open>A store as \<^verbatim>\<open>__init__\<close> leaves it.\<close>

definition store_after_init :: mysql_registry_store where
  "store_after_init = \<lparr>db_config = ''mysql://feast'', table_name = ''registry'', conn_attr = None\<rparr>"

text \<open>
  C9 at two failing inputs. With the rows of versions 1 and 2 stored, the query would
  select the registry of version 2, and with the server unreachable the handler would
  return the empty registry; but \<^verbatim>\<open>get_registry_proto\<close> raises TypeError in both
  cases, because it calls \<^verbatim>\<open>self._get_conn(self.db_config)\<close> and
  \<^verbatim>\<open>_get_conn\<close> takes no argument.
\<close>

theorem get_registry_proto_raises:
  "select_latest (Table [(1, ''old''), (2, ''new'')]) = Inr (Some ''new'') \<and>
   get_registry_proto store_after_init (Table [(1, ''old''), (2, ''new'')]) = Inl TypeError \<and>
   get_registry_proto store_after_init Unreachable = Inl TypeError"
  by (simp add: get_registry_proto_def get_conn_def select_latest_def max_version_def)

subsection \<open>On-demand feature views (on_demand_feature_view.py)\<close>

text \<open>
  The attributes of lines 66 to 75. A \<^verbatim>\<open>Field\<close> has a name and a type; a function
  object has its compiled code \<^verbatim>\<open>__code__.co_code\<close> and can be called.
  \<^verbatim>\<open>FeatureViewProjection\<close> and \<^verbatim>\<open>RequestSource\<close> are not in the sources at
  hand: a projection is the name and the features the engine reads, and
  \<open>projection_name_to_use\<close> is the string \<^verbatim>\<open>self.projection.name_to_use()\<close> returns.
\<close>

record field =
  field_name :: string
  field_dtype :: string

record feature_view_projection =
  projection_name :: string
  projection_features :: "field list"

record request_source =
  request_source_name :: string
  request_schema :: "field list"

record 'f py_function =
  co_code :: "nat list"
  call :: 'f

record 'f on_demand_feature_view =
  odfv_name :: string
  features :: "field list"
  source_feature_view_projections :: "(string, feature_view_projection) dict"
  source_request_sources :: "(string, request_source) dict"
  udf :: "'f py_function"
  udf_string :: string
  mode :: string
  description :: string
  tags :: "(string, string) dict"
  owner :: string
  projection_name_to_use :: string

subsection \<open>Equality of definitions (lines 161 to 179)\<close>

text \<open>
  \<^verbatim>\<open>d1 != d2\<close> on dictionaries ignores the order of the keys: the two have the same
  keys with equal values.
\<close>

definition dict_eq :: "('k, 'v) dict \<Rightarrow> ('k, 'v) dict \<Rightarrow> bool" where
  "dict_eq d1 d2 =
     (list_all (\<lambda>kv. map_of d2 (fst kv) = Some (snd kv)) d1 \<and>
      list_all (\<lambda>kv. map_of d1 (fst kv) = Some (snd kv)) d2)"

text \<open>
  \<open>other\<close> is \<open>None\<close> for an object that is no OnDemandFeatureView.
  \<open>base_eq\<close> is \<^verbatim>\<open>BaseFeatureView.__eq__\<close>, which is not in the sources at hand.
\<close>

definition odfv_eq ::
  "('f on_demand_feature_view \<Rightarrow> 'f on_demand_feature_view \<Rightarrow> bool) \<Rightarrow>
   'f on_demand_feature_view \<Rightarrow> 'f on_demand_feature_view option \<Rightarrow> error + bool" where
  "odfv_eq base_eq self other =
     (case other of
        None \<Rightarrow> Inl TypeError
      | Some other \<Rightarrow>
          if \<not> base_eq self other then Inr False
          else if \<not> dict_eq (source_feature_view_projections self)
                              (source_feature_view_projections other)
                  \<or> \<not> dict_eq (source_request_sources self) (source_request_sources other)
                  \<or> udf_string self \<noteq> udf_string other
                  \<or> co_code (udf self) \<noteq> co_code (udf other)
               then Inr False
          else Inr True)"

lemma dict_eq_map_of:
  assumes "distinct (map fst d1)" "distinct (map fst d2)"
  shows "dict_eq d1 d2 \<longleftrightarrow> map_of d1 = map_of d2"
proof
  assume e: "dict_eq d1 d2"
  show "map_of d1 = map_of d2"
  proof
    fix k
    show "map_of d1 k = map_of d2 k"
    proof (cases "map_of d1 k")
      case None
      show ?thesis
      proof (cases "map_of d2 k")
        case None
        with \<open>map_of d1 k = None\<close> show ?thesis by simp
      next
        case (Some v)
        then have "(k, v) \<in> set d2" by (rule map_of_SomeD)
        with e have "map_of d1 k = Some v" by (auto simp: dict_eq_def list_all_iff)
        with None show ?thesis by simp
      qed
    next
      case (Some v)
      then have "(k, v) \<in> set d1" by (rule map_of_SomeD)
      with e have "map_of d2 k = Some v" by (auto simp: dict_eq_def list_all_iff)
      with Some show ?thesis by simp
    qed
  qed
next
  assume m: "map_of d1 = map_of d2"
  show "dict_eq d1 d2"
    using assms m by (auto simp: dict_eq_def list_all_iff dest: map_of_is_SomeI)
qed

subsection \<open>The transformation engine\<close>

text \<open>
  A value is a number. A DataFrame is its columns in order, each a name and the values of
  the rows; \<^verbatim>\<open>to_dict\<close> keeps the last of two columns of one name. A row handed to
  a Python-mode transformation is a dictionary from names to values.
\<close>

type_synonym dataframe = "(string \<times> int list) list"

type_synonym row = "(string, int) dict"

definition dict_of_items :: "('k \<times> 'v) list \<Rightarrow> ('k, 'v) dict" where
  "dict_of_items items = fold (\<lambda>kv d. dict_set d (fst kv) (snd kv)) items []"

definition to_dict :: "dataframe \<Rightarrow> (string, int list) dict" where
  "to_dict df = dict_of_items df"

definition from_dict :: "(string, int list) dict \<Rightarrow> dataframe" where
  "from_dict d = d"

definition full_feature_ref :: "feature_view_projection \<Rightarrow> field \<Rightarrow> string" where
  "full_feature_ref source_fv_projection feature =
     projection_name source_fv_projection @ ''__'' @ field_name feature"

definition get_projected_feature_name :: "'f on_demand_feature_view \<Rightarrow> string \<Rightarrow> string" where
  "get_projected_feature_name self feature = projection_name_to_use self @ ''__'' @ feature"

text \<open>A loop whose body can raise stops at the first exception.\<close>

fun fold_err :: "('a \<Rightarrow> 'b \<Rightarrow> error + 'b) \<Rightarrow> 'a list \<Rightarrow> 'b \<Rightarrow> error + 'b" where
  "fold_err f [] acc = Inr acc"
| "fold_err f (x # xs) acc =
     (case f x acc of Inl e \<Rightarrow> Inl e | Inr acc' \<Rightarrow> fold_err f xs acc')"

subsubsection \<open>Tabular mode (lines 324 to 367)\<close>

text \<open>The body of the loop of lines 332 to 342, on the dictionary and the cleanup list.\<close>

definition duplicate_column ::
  "feature_view_projection \<Rightarrow> field \<Rightarrow> (string, int list) dict \<times> string list
     \<Rightarrow> (string, int list) dict \<times> string list" where
  "duplicate_column source_fv_projection feature acc =
     (let dict_with_features = fst acc;
          columns_to_cleanup = snd acc;
          full = full_feature_ref source_fv_projection feature
      in case map_of dict_with_features full of
           Some col \<Rightarrow>
             (dict_set dict_with_features (field_name feature) col,
              columns_to_cleanup @ [field_name feature])
         | None \<Rightarrow>
             (case map_of dict_with_features (field_name feature) of
                Some col \<Rightarrow> (dict_set dict_with_features full col, columns_to_cleanup @ [full])
              | None \<Rightarrow> (dict_with_features, columns_to_cleanup)))"

definition duplicate_columns ::
  "'f on_demand_feature_view \<Rightarrow> (string, int list) dict \<Rightarrow> (string, int list) dict \<times> string list" where
  "duplicate_columns self d =
     fold (\<lambda>source_fv_projection acc.
             fold (duplicate_column source_fv_projection)
               (projection_features source_fv_projection) acc)
       (dict_values (source_feature_view_projections self)) (d, [])"

text \<open>The body of the loop of lines 349 to 359.\<close>

definition rename_column ::
  "'f on_demand_feature_view \<Rightarrow> string list \<Rightarrow> bool \<Rightarrow> field \<Rightarrow> (string, string) dict
     \<Rightarrow> (string, string) dict" where
  "rename_column self columns full_feature_names feature rename_columns =
     (let short_name = field_name feature;
          long_name = get_projected_feature_name self (field_name feature)
      in if short_name \<in> set columns \<and> full_feature_names
         then dict_set rename_columns short_name long_name
         else if \<not> full_feature_names then dict_set rename_columns long_name short_name
         else rename_columns)"

text \<open>\<^verbatim>\<open>DataFrame.drop(columns=...)\<close> returns a new frame and leaves its receiver as it is.\<close>

definition drop :: "dataframe \<Rightarrow> string list \<Rightarrow> dataframe" where
  "drop df columns = filter (\<lambda>col. fst col \<notin> set columns) df"

definition get_transformed_features_df ::
  "(dataframe \<Rightarrow> error + dataframe) on_demand_feature_view \<Rightarrow> dataframe \<Rightarrow> bool
     \<Rightarrow> error + dataframe" where
  "get_transformed_features_df self df_with_features full_feature_names =
     (let (dict_with_features, columns_to_cleanup) =
            duplicate_columns self (to_dict df_with_features);
          df_with_features = from_dict dict_with_features
      in case call (udf self) df_with_features of
           Inl e \<Rightarrow> Inl e
         | Inr df_with_transformed_features \<Rightarrow>
             let columns = map fst df_with_transformed_features;
                 rename_columns =
                   fold (rename_column self columns full_feature_names) (features self) [];
                 dropped =
                   drop df_with_features
                     (filter (\<lambda>c. dict_in c df_with_features) columns_to_cleanup);
                 new_columns =
                   map (\<lambda>n. case map_of rename_columns n of Some m \<Rightarrow> m | None \<Rightarrow> n) columns
             in Inr (zip new_columns (map snd df_with_transformed_features)))"

subsubsection \<open>Row mode (lines 369 to 408)\<close>

text \<open>The body of the loop of lines 376 to 382; line 382 reads \<^verbatim>\<open>name_map[full_feature_ref]\<close>.\<close>

definition name_map_entry ::
  "(string, int list) dict \<Rightarrow> feature_view_projection \<Rightarrow> field \<Rightarrow> (string, string) dict
     \<Rightarrow> error + (string, string) dict" where
  "name_map_entry feature_dict source_fv_projection feature name_map =
     (let full = full_feature_ref source_fv_projection feature
      in if dict_in full feature_dict then Inr (dict_set name_map full (field_name feature))
         else if dict_in (field_name feature) feature_dict then
           (case map_of name_map full of
              None \<Rightarrow> Inl KeyError
            | Some v \<Rightarrow> Inr (dict_set name_map (field_name feature) v))
         else Inr name_map)"

definition build_name_map ::
  "'f on_demand_feature_view \<Rightarrow> (string, int list) dict \<Rightarrow> error + (string, string) dict" where
  "build_name_map self feature_dict =
     fold_err (\<lambda>source_fv_projection name_map.
                 fold_err (name_map_entry feature_dict source_fv_projection)
                   (projection_features source_fv_projection) name_map)
       (dict_values (source_feature_view_projections self)) []"

text \<open>\<^verbatim>\<open>zip(*columns)\<close>: as many tuples as the shortest column has values, none without columns.\<close>

fun min_length :: "'a list list \<Rightarrow> nat" where
  "min_length [] = 0"
| "min_length [c] = length c"
| "min_length (c # cs) = min (length c) (min_length cs)"

definition zip_star :: "'a list list \<Rightarrow> 'a list list" where
  "zip_star columns = map (\<lambda>i. map (\<lambda>c. c ! i) columns) [0 ..< min_length columns]"

text \<open>
  One row (lines 387 to 390): the values under their own keys, then under
  \<^verbatim>\<open>name_map[k]\<close> for every key \<open>k\<close> of the input.
\<close>

definition make_row :: "string list \<Rightarrow> (string, string) dict \<Rightarrow> int list \<Rightarrow> error + row" where
  "make_row keys name_map values =
     (case fold_err (\<lambda>kv items. case map_of name_map (fst kv) of
                                    None \<Rightarrow> Inl KeyError
                                  | Some alias \<Rightarrow> Inr (items @ [(alias, snd kv)]))
             (zip keys values) [] of
        Inl e \<Rightarrow> Inl e
      | Inr renamed \<Rightarrow> Inr (dict_of_items (zip keys values @ dict_of_items renamed)))"

definition make_rows :: "(string, int list) dict \<Rightarrow> (string, string) dict \<Rightarrow> error + row list" where
  "make_rows feature_dict name_map =
     fold_err (\<lambda>values rows. case make_row (dict_keys feature_dict) name_map values of
                                Inl e \<Rightarrow> Inl e
                              | Inr r \<Rightarrow> Inr (rows @ [r]))
       (zip_star (dict_values feature_dict)) []"

text \<open>The body of the loop of lines 395 to 399, on the output dictionary and the aliases.\<close>

definition declare_output ::
  "'f on_demand_feature_view \<Rightarrow> bool \<Rightarrow> nat \<Rightarrow> field
     \<Rightarrow> (string, int option list) dict \<times> (string, string) dict
     \<Rightarrow> (string, int option list) dict \<times> (string, string) dict" where
  "declare_output self full_feature_names n feature acc =
     (let output_dict = fst acc;
          correct_feature_name_to_alias = snd acc;
          long_name = get_projected_feature_name self (field_name feature);
          correct_name = (if full_feature_names then long_name else field_name feature)
      in (dict_set output_dict correct_name (replicate n None),
          dict_set correct_feature_name_to_alias correct_name
            (if full_feature_names then field_name feature else long_name)))"

text \<open>
  Line 406: \<^verbatim>\<open>row_output.get(feature, row_output[alias])\<close>. The default is an argument
  of the call, so \<^verbatim>\<open>row_output[alias]\<close> is evaluated, and raises when the alias is
  missing, before \<^verbatim>\<open>get\<close> looks for the feature.
\<close>

definition store_output ::
  "(string, string) dict \<Rightarrow> row \<Rightarrow> nat \<Rightarrow> string \<Rightarrow> (string, int option list) dict
     \<Rightarrow> error + (string, int option list) dict" where
  "store_output correct_feature_name_to_alias row_output i feature output_dict =
     (case map_of correct_feature_name_to_alias feature of
        None \<Rightarrow> Inl KeyError
      | Some alias \<Rightarrow>
          (case map_of row_output alias of
             None \<Rightarrow> Inl KeyError
           | Some fallback \<Rightarrow>
               let v = (case map_of row_output feature of Some x \<Rightarrow> x | None \<Rightarrow> fallback)
               in (case map_of output_dict feature of
                     None \<Rightarrow> Inl KeyError
                   | Some column \<Rightarrow> Inr (dict_set output_dict feature (column[i := Some v])))))"

definition get_transformed_features_dict ::
  "(row \<Rightarrow> error + row) on_demand_feature_view \<Rightarrow> (string, int list) dict \<Rightarrow> bool
     \<Rightarrow> error + (string, int option list) dict" where
  "get_transformed_features_dict self feature_dict full_feature_names =
     (case build_name_map self feature_dict of
        Inl e \<Rightarrow> Inl e
      | Inr name_map \<Rightarrow>
          (case make_rows feature_dict name_map of
             Inl e \<Rightarrow> Inl e
           | Inr rows \<Rightarrow>
               let (output_dict, correct_feature_name_to_alias) =
                     fold (declare_output self full_feature_names (length rows))
                       (features self) ([], [])
               in fold_err
                    (\<lambda>(i, row) output_dict.
                       case call (udf self) row of
                         Inl e \<Rightarrow> Inl e
                       | Inr row_output \<Rightarrow>
                           fold_err (store_output correct_feature_name_to_alias row_output i)
                             (dict_keys output_dict) output_dict)
                    (enumerate 0 rows) output_dict))"

subsubsection \<open>The dispatcher (lines 410 to 429)\<close>

text \<open>
  \<^verbatim>\<open>get_transformed_features\<close> receives a dictionary or a DataFrame and hands
  \<^verbatim>\<open>cast(features, T)\<close> on. \<^verbatim>\<open>typing.cast(typ, val)\<close> returns its second
  argument, so what is handed on is the type object \<open>T\<close>. An argument is therefore a
  dictionary, a DataFrame or a type object; the class is \<^verbatim>\<open>@typechecked\<close>, and a
  method called with an argument of the wrong type raises TypeError.
\<close>

datatype py_argument =
    DictData "(string, int list) dict"
  | FrameData dataframe
  | DictType
  | DataFrameType

definition cast :: "py_argument \<Rightarrow> py_argument \<Rightarrow> py_argument" where
  "cast typ val = val"

definition call_get_transformed_features_dict ::
  "(row \<Rightarrow> error + row) on_demand_feature_view \<Rightarrow> py_argument \<Rightarrow> bool
     \<Rightarrow> error + (string, int option list) dict" where
  "call_get_transformed_features_dict self feature_dict full_feature_names =
     (case feature_dict of
        DictData d \<Rightarrow> get_transformed_features_dict self d full_feature_names
      | _ \<Rightarrow> Inl TypeError)"

definition call_get_transformed_features_df ::
  "(dataframe \<Rightarrow> error + dataframe) on_demand_feature_view \<Rightarrow> py_argument \<Rightarrow> bool
     \<Rightarrow> error + dataframe" where
  "call_get_transformed_features_df self df_with_features full_feature_names =
     (case df_with_features of
        FrameData df \<Rightarrow> get_transformed_features_df self df full_feature_names
      | _ \<Rightarrow> Inl TypeError)"

text \<open>
  The dispatcher, with the attributes of \<^verbatim>\<open>self\<close> it uses as arguments: the mode
  and the two bound methods. It returns what the method of the mode returns.
\<close>

definition get_transformed_features ::
  "string \<Rightarrow> (py_argument \<Rightarrow> bool \<Rightarrow> error + 'a) \<Rightarrow> (py_argument \<Rightarrow> bool \<Rightarrow> error + 'b)
     \<Rightarrow> py_argument \<Rightarrow> bool \<Rightarrow> error + ('a + 'b)" where
  "get_transformed_features self_mode transformed_features_dict transformed_features_df
       features_in full_feature_names =
     (if self_mode = ''python'' then
        (case features_in of
           DictData d \<Rightarrow>
             (case transformed_features_dict (cast features_in DictType) full_feature_names of
                Inl e \<Rightarrow> Inl e
              | Inr r \<Rightarrow> Inr (Inl r))
         | _ \<Rightarrow> Inl AssertionError)
      else if self_mode = ''pandas'' then
        (case features_in of
           FrameData df \<Rightarrow>
             (case transformed_features_df (cast features_in DataFrameType) full_feature_names of
                Inl e \<Rightarrow> Inl e
              | Inr r \<Rightarrow> Inr (Inr r))
         | _ \<Rightarrow> Inl AssertionError)
      else Inl Exception)"

text \<open>Whatever the mode and the input, the dispatcher raises: the methods get a type object.\<close>

lemma get_transformed_features_raises:
  "\<exists>e. get_transformed_features m (call_get_transformed_features_dict v)
          (call_get_transformed_features_df w) x full = Inl e"
  by (cases x)
     (simp_all add: get_transformed_features_def call_get_transformed_features_dict_def
        call_get_transformed_features_df_def cast_def)

lemma get_transformed_features_TypeError:
  "get_transformed_features ''python'' (call_get_transformed_features_dict v)
     (call_get_transformed_features_df w) (DictData d) full = Inl TypeError"
  "get_transformed_features ''pandas'' (call_get_transformed_features_dict v)
     (call_get_transformed_features_df w) (FrameData df) full = Inl TypeError"
  by (simp_all add: get_transformed_features_def call_get_transformed_features_dict_def
        call_get_transformed_features_df_def cast_def)

subsection \<open>What the engine does in general\<close>

text \<open>Tabular mode returns every column of the transformation's output, renamed or not.\<close>

lemma get_transformed_features_df_values:
  assumes "get_transformed_features_df self df full_feature_names = Inr result"
  shows "\<exists>out. call (udf self) (from_dict (fst (duplicate_columns self (to_dict df)))) = Inr out \<and>
               map snd result = map snd out \<and> length result = length out"
  using assms
  by (auto simp: get_transformed_features_df_def Let_def split: prod.splits sum.splits)

text \<open>
  Row mode needs every input column to be the full reference of a projection feature.
  \<open>full_refs\<close> are those references. The keys of \<^verbatim>\<open>name_map\<close> are input columns
  that are full references, because the branch of line 382 always raises; and line 389
  looks every input column up in \<^verbatim>\<open>name_map\<close> as soon as there is a row.
\<close>

definition full_refs :: "'f on_demand_feature_view \<Rightarrow> string set" where
  "full_refs self =
     (\<Union>p \<in> set (dict_values (source_feature_view_projections self)).
        full_feature_ref p ` set (projection_features p))"

lemma fold_err_cases:
  assumes "P acc"
    and "\<And>x a. x \<in> set xs \<Longrightarrow> P a \<Longrightarrow> (case f x a of Inl e \<Rightarrow> Q e | Inr a' \<Rightarrow> P a')"
  shows "case fold_err f xs acc of Inl e \<Rightarrow> Q e | Inr r \<Rightarrow> P r"
  using assms
proof (induction xs arbitrary: acc)
  case Nil
  then show ?case by simp
next
  case (Cons x xs)
  from Cons.prems(2) [of x acc] Cons.prems(1)
  have step: "case f x acc of Inl e \<Rightarrow> Q e | Inr a' \<Rightarrow> P a'" by simp
  show ?case
  proof (cases "f x acc")
    case (Inl e)
    with step show ?thesis by simp
  next
    case (Inr a')
    with step have "P a'" by simp
    then have "case fold_err f xs a' of Inl e \<Rightarrow> Q e | Inr r \<Rightarrow> P r"
      by (rule Cons.IH) (simp add: Cons.prems(2))
    with Inr show ?thesis by simp
  qed
qed

lemma name_map_entry_cases:
  assumes "p \<in> set (dict_values (source_feature_view_projections self))"
    and "f \<in> set (projection_features p)"
    and "set (dict_keys name_map) \<subseteq> set (dict_keys feature_dict) \<inter> full_refs self"
  shows "case name_map_entry feature_dict p f name_map of
           Inl e \<Rightarrow> e = KeyError
         | Inr name_map' \<Rightarrow>
             set (dict_keys name_map') \<subseteq> set (dict_keys feature_dict) \<inter> full_refs self"
proof -
  have ref: "full_feature_ref p f \<in> full_refs self"
    using assms(1,2) by (auto simp: full_refs_def)
  show ?thesis
  proof (cases "dict_in (full_feature_ref p f) feature_dict")
    case True
    with ref assms(3) show ?thesis
      by (auto simp: name_map_entry_def Let_def set_dict_keys_dict_set dict_in_keys)
  next
    case False
    with assms(3) have "full_feature_ref p f \<notin> set (dict_keys name_map)"
      by (auto simp: dict_in_keys)
    then have "map_of name_map (full_feature_ref p f) = None"
      by (simp add: dict_keys_def map_of_eq_None_iff)
    with False assms(3) show ?thesis
      by (simp add: name_map_entry_def Let_def)
  qed
qed

lemma build_name_map_cases:
  "case build_name_map self feature_dict of
     Inl e \<Rightarrow> e = KeyError
   | Inr name_map \<Rightarrow> set (dict_keys name_map) \<subseteq> set (dict_keys feature_dict) \<inter> full_refs self"
  unfolding build_name_map_def
proof (rule fold_err_cases)
  show "set (dict_keys []) \<subseteq> set (dict_keys feature_dict) \<inter> full_refs self"
    by (simp add: dict_keys_def)
next
  fix p and name_map :: "(string, string) dict"
  assume p: "p \<in> set (dict_values (source_feature_view_projections self))"
    and inv: "set (dict_keys name_map) \<subseteq> set (dict_keys feature_dict) \<inter> full_refs self"
  show "case fold_err (name_map_entry feature_dict p) (projection_features p) name_map of
          Inl e \<Rightarrow> e = KeyError
        | Inr a' \<Rightarrow> set (dict_keys a') \<subseteq> set (dict_keys feature_dict) \<inter> full_refs self"
  proof (rule fold_err_cases)
    show "set (dict_keys name_map) \<subseteq> set (dict_keys feature_dict) \<inter> full_refs self"
      by (rule inv)
  next
    fix f and a :: "(string, string) dict"
    assume "f \<in> set (projection_features p)"
      and "set (dict_keys a) \<subseteq> set (dict_keys feature_dict) \<inter> full_refs self"
    with p show "case name_map_entry feature_dict p f a of
                   Inl e \<Rightarrow> e = KeyError
                 | Inr a' \<Rightarrow> set (dict_keys a') \<subseteq> set (dict_keys feature_dict) \<inter> full_refs self"
      by (rule name_map_entry_cases)
  qed
qed

lemma rename_items_KeyError:
  assumes "kv \<in> set items" "map_of name_map (fst kv) = None"
  shows "fold_err (\<lambda>kv items. case map_of name_map (fst kv) of
                                 None \<Rightarrow> Inl KeyError
                               | Some alias \<Rightarrow> Inr (items @ [(alias, snd kv)]))
           items acc = Inl KeyError"
  using assms
proof (induction items arbitrary: acc)
  case Nil
  then show ?case by simp
next
  case (Cons x xs)
  show ?case
  proof (cases "map_of name_map (fst x)")
    case None
    then show ?thesis by simp
  next
    case (Some renamed)
    with Cons.prems have "kv \<in> set xs" by auto
    from Cons.IH [OF this Cons.prems(2)] Some show ?thesis by simp
  qed
qed

lemma make_row_KeyError:
  assumes "k \<in> set keys" "k \<notin> set (dict_keys name_map)" "length values = length keys"
  shows "make_row keys name_map values = Inl KeyError"
proof -
  from assms(1) obtain i where i: "i < length keys" "keys ! i = k"
    by (auto simp: in_set_conv_nth)
  with assms(3) have "(k, values ! i) \<in> set (zip keys values)"
    by (auto simp: in_set_zip)
  moreover from assms(2) have "map_of name_map (fst (k, values ! i)) = None"
    by (simp add: dict_keys_def map_of_eq_None_iff)
  ultimately show ?thesis
    unfolding make_row_def by (simp add: rename_items_KeyError)
qed

lemma make_rows_KeyError:
  assumes "k \<in> set (dict_keys feature_dict)" "k \<notin> set (dict_keys name_map)"
    and "0 < min_length (dict_values feature_dict)"
  shows "make_rows feature_dict name_map = Inl KeyError"
proof -
  let ?cols = "dict_values feature_dict"
  from assms(3) have "[0 ..< min_length ?cols] = 0 # [1 ..< min_length ?cols]"
    by (simp add: upt_rec)
  then have z: "zip_star ?cols =
      map (\<lambda>c. c ! 0) ?cols # map (\<lambda>i. map (\<lambda>c. c ! i) ?cols) [1 ..< min_length ?cols]"
    by (simp add: zip_star_def)
  have "length (map (\<lambda>c. c ! 0) ?cols) = length (dict_keys feature_dict)"
    by (simp add: dict_values_def dict_keys_def)
  with assms(1,2)
  have "make_row (dict_keys feature_dict) name_map (map (\<lambda>c. c ! 0) ?cols) = Inl KeyError"
    by (rule make_row_KeyError)
  with z show ?thesis by (simp add: make_rows_def)
qed

lemma row_mode_needs_full_refs:
  assumes "k \<in> set (dict_keys feature_dict)" "k \<notin> full_refs self"
    and "0 < min_length (dict_values feature_dict)"
  shows "get_transformed_features_dict self feature_dict full_feature_names = Inl KeyError"
proof (cases "build_name_map self feature_dict")
  case (Inl e)
  with build_name_map_cases [where self = self and feature_dict = feature_dict] have "e = KeyError" by simp
  with Inl show ?thesis by (simp add: get_transformed_features_dict_def)
next
  case (Inr name_map)
  with build_name_map_cases [where self = self and feature_dict = feature_dict]
  have "set (dict_keys name_map) \<subseteq> full_refs self" by simp
  with assms(2) have "k \<notin> set (dict_keys name_map)" by auto
  then have "make_rows feature_dict name_map = Inl KeyError"
    by (rule make_rows_KeyError [OF assms(1) _ assms(3)])
  with Inr show ?thesis by (simp add: get_transformed_features_dict_def)
qed

text \<open>
  Tabular mode, for a transformation that reports its outputs under short names: without
  \<open>full_feature_names\<close> the result is the transformation's output, with it a declared
  output is found under its full name with the same values.
\<close>

lemma map_of_rename_columns_full:
  "map_of (fold (rename_column self columns True) fs acc) n =
     (if n \<in> set columns \<and> n \<in> field_name ` set fs
      then Some (get_projected_feature_name self n) else map_of acc n)"
  by (induction fs arbitrary: acc) (auto simp: rename_column_def Let_def map_of_dict_set)

lemma dict_keys_rename_columns_short:
  "set (dict_keys (fold (rename_column self columns False) fs acc)) =
     set (dict_keys acc) \<union> (\<lambda>f. get_projected_feature_name self (field_name f)) ` set fs"
  by (induction fs arbitrary: acc) (auto simp: rename_column_def Let_def set_dict_keys_dict_set)

lemma map_of_zip_map_inj:
  "inj_on g (insert c (set xs)) \<Longrightarrow> map_of (zip (map g xs) ys) (g c) = map_of (zip xs ys) c"
proof (induction xs arbitrary: ys)
  case Nil
  then show ?case by simp
next
  case (Cons x xs)
  show ?case
  proof (cases ys)
    case Nil
    then show ?thesis by simp
  next
    case (Cons y ys')
    from Cons.prems have inj: "inj_on g (insert c (set xs))"
      by (rule inj_on_subset) auto
    from Cons.prems have "g x = g c \<longleftrightarrow> x = c"
      by (auto simp: inj_on_def)
    with Cons.IH [OF inj, of ys'] Cons show ?thesis by auto
  qed
qed

lemma zip_map_fst_snd: "zip (map fst xs) (map snd xs) = xs"
  by (induction xs) auto

lemma map_idem: "(\<And>x. x \<in> set xs \<Longrightarrow> f x = x) \<Longrightarrow> map f xs = xs"
  by (induction xs) auto

lemma get_transformed_features_df_alt:
  "get_transformed_features_df self df full_feature_names =
     (case call (udf self) (from_dict (fst (duplicate_columns self (to_dict df)))) of
        Inl e \<Rightarrow> Inl e
      | Inr out \<Rightarrow>
          Inr (zip (map (\<lambda>n. case map_of (fold (rename_column self (map fst out) full_feature_names)
                                              (features self) []) n of
                                Some m \<Rightarrow> m | None \<Rightarrow> n)
                      (map fst out))
                 (map snd out)))"
  by (simp add: get_transformed_features_df_def Let_def split: prod.splits sum.splits)

lemma tabular_mode_short_names:
  assumes out: "call (udf self) (from_dict (fst (duplicate_columns self (to_dict df)))) = Inr out"
    and nolong: "\<forall>f \<in> set (features self).
                   get_projected_feature_name self (field_name f) \<notin> set (map fst out)"
    and f: "f \<in> set (features self)" "field_name f \<in> set (map fst out)"
  shows "get_transformed_features_df self df False = Inr out \<and>
         (\<exists>res. get_transformed_features_df self df True = Inr res \<and>
                map_of res (get_projected_feature_name self (field_name f)) =
                  map_of out (field_name f))"
proof -
  let ?cols = "map fst out"
  let ?rnF = "fold (rename_column self ?cols False) (features self) []"
  let ?rnT = "fold (rename_column self ?cols True) (features self) []"
  define g where "g = (\<lambda>n. case map_of ?rnT n of Some m \<Rightarrow> m | None \<Rightarrow> n)"
  have keysF: "\<And>n. n \<in> set ?cols \<Longrightarrow> map_of ?rnF n = None"
  proof -
    fix n assume "n \<in> set ?cols"
    have "set (dict_keys ([] :: (string, string) dict)) = {}" by (simp add: dict_keys_def)
    then have "set (dict_keys ?rnF) =
        (\<lambda>f. get_projected_feature_name self (field_name f)) ` set (features self)"
      by (simp only: dict_keys_rename_columns_short) simp
    with nolong \<open>n \<in> set ?cols\<close> have "n \<notin> set (dict_keys ?rnF)" by force
    then show "map_of ?rnF n = None"
      by (simp add: dict_keys_def map_of_eq_None_iff)
  qed
  have mapF: "map (\<lambda>n. case map_of ?rnF n of Some m \<Rightarrow> m | None \<Rightarrow> n) ?cols = ?cols"
    by (rule map_idem) (simp add: keysF)
  have F: "get_transformed_features_df self df False = Inr out"
    unfolding get_transformed_features_df_alt out
    by (simp only: sum.case mapF zip_map_fst_snd)
  have T: "get_transformed_features_df self df True = Inr (zip (map g ?cols) (map snd out))"
    unfolding get_transformed_features_df_alt out g_def
    by (simp only: sum.case)
  have declared: "\<And>n. n \<in> set ?cols \<Longrightarrow> n \<in> field_name ` set (features self) \<Longrightarrow>
                    g n = get_projected_feature_name self n"
    by (simp add: g_def map_of_rename_columns_full)
  have other: "\<And>n. n \<in> set ?cols \<Longrightarrow> n \<notin> field_name ` set (features self) \<Longrightarrow> g n = n"
    by (simp add: g_def map_of_rename_columns_full)
  have fresh: "\<And>n. n \<in> field_name ` set (features self) \<Longrightarrow>
                  get_projected_feature_name self n \<notin> set ?cols"
    using nolong by auto
  have inj: "inj_on g (insert (field_name f) (set ?cols))"
  proof (rule inj_onI)
    fix a b
    assume "a \<in> insert (field_name f) (set ?cols)"
      and "b \<in> insert (field_name f) (set ?cols)" and eq: "g a = g b"
    with f have a: "a \<in> set ?cols" and b: "b \<in> set ?cols" by auto
    show "a = b"
    proof (cases "a \<in> field_name ` set (features self)")
      case da: True
      show ?thesis
      proof (cases "b \<in> field_name ` set (features self)")
        case True
        with da eq declared [OF a] declared [OF b] show ?thesis
          by (simp add: get_projected_feature_name_def)
      next
        case False
        with da eq declared [OF a] other [OF b] have "get_projected_feature_name self a = b"
          by simp
        with fresh [OF da] b show ?thesis by simp
      qed
    next
      case na: False
      show ?thesis
      proof (cases "b \<in> field_name ` set (features self)")
        case True
        with na eq other [OF a] declared [OF b] have "a = get_projected_feature_name self b"
          by simp
        with fresh [OF True] a show ?thesis by simp
      next
        case False
        with na eq other [OF a] other [OF b] show ?thesis by simp
      qed
    qed
  qed
  have "g (field_name f) = get_projected_feature_name self (field_name f)"
    using declared [OF f(2)] f(1) by simp
  with map_of_zip_map_inj [OF inj, of "map snd out"]
  have "map_of (zip (map g ?cols) (map snd out)) (get_projected_feature_name self (field_name f))
          = map_of out (field_name f)"
    by (simp add: zip_map_fst_snd)
  with F T show ?thesis by simp
qed

subsection \<open>Example views\<close>

text \<open>
  The quickstart's view: the projection \<open>stats\<close> with the feature \<open>conv_rate\<close>, the
  request source with the field \<open>int_val\<close>, the declared output \<open>output\<close>. The
  transformation is the first argument, its mode the second.
\<close>

definition conv_rate :: field where
  "conv_rate = \<lparr>field_name = ''conv_rate'', field_dtype = ''Float32''\<rparr>"

definition int_val :: field where
  "int_val = \<lparr>field_name = ''int_val'', field_dtype = ''Int64''\<rparr>"

definition output_field :: field where
  "output_field = \<lparr>field_name = ''output'', field_dtype = ''Float64''\<rparr>"

text \<open>
  \<^verbatim>\<open>df = pd.DataFrame(); df["output"] = inputs["conv_rate"] + inputs["int_val"]; return df\<close>
  and the same logic on one row,
  \<^verbatim>\<open>return {"output": inputs["conv_rate"] + inputs["int_val"]}\<close>.
\<close>

definition add_frame :: "dataframe \<Rightarrow> error + dataframe" where
  "add_frame inputs =
     (case (map_of inputs ''conv_rate'', map_of inputs ''int_val'') of
        (Some xs, Some ys) \<Rightarrow> Inr [(''output'', map2 (+) xs ys)]
      | _ \<Rightarrow> Inl KeyError)"

definition add_row :: "row \<Rightarrow> error + row" where
  "add_row inputs =
     (case (map_of inputs ''conv_rate'', map_of inputs ''int_val'') of
        (Some x, Some y) \<Rightarrow> Inr [(''output'', x + y)]
      | _ \<Rightarrow> Inl KeyError)"

definition example_view :: "'f \<Rightarrow> string \<Rightarrow> 'f on_demand_feature_view" where
  "example_view f m =
     \<lparr>odfv_name = ''odfv'', features = [output_field],
      source_feature_view_projections =
        [(''stats'', \<lparr>projection_name = ''stats'', projection_features = [conv_rate]\<rparr>)],
      source_request_sources =
        [(''input_request'', \<lparr>request_source_name = ''input_request'', request_schema = [int_val]\<rparr>)],
      udf = \<lparr>co_code = [100, 0, 100, 1, 23, 83], call = f\<rparr>,
      udf_string = ''def odfv(inputs): ...'',
      mode = m, description = [], tags = [], owner = [],
      projection_name_to_use = ''odfv''\<rparr>"

definition example_input :: "(string \<times> int list) list" where
  "example_input = [(''stats__conv_rate'', [1, 2]), (''int_val'', [10, 20])]"

text \<open>
  \<^verbatim>\<open>return {"output": inputs["conv_rate"] + 1}\<close>, and a tabular transformation that
  adds its output column to the frame it was given and returns that frame.
\<close>

definition incr_row :: "row \<Rightarrow> error + row" where
  "incr_row inputs =
     (case map_of inputs ''conv_rate'' of
        Some x \<Rightarrow> Inr [(''output'', x + 1)]
      | None \<Rightarrow> Inl KeyError)"

definition add_column :: "dataframe \<Rightarrow> error + dataframe" where
  "add_column inputs =
     (case (map_of inputs ''conv_rate'', map_of inputs ''int_val'') of
        (Some xs, Some ys) \<Rightarrow> Inr (dict_set inputs ''output'' (map2 (+) xs ys))
      | _ \<Rightarrow> Inl KeyError)"

lemmas engine_defs =
  get_transformed_features_df_def get_transformed_features_dict_def duplicate_columns_def
  duplicate_column_def rename_column_def drop_def build_name_map_def name_map_entry_def
  make_rows_def make_row_def zip_star_def declare_output_def store_output_def
  to_dict_def from_dict_def dict_of_items_def full_feature_ref_def
  get_projected_feature_name_def dict_in_def dict_keys_def dict_values_def

lemmas example_defs =
  example_view_def example_input_def conv_rate_def int_val_def output_field_def
  add_frame_def add_row_def incr_row_def add_column_def

subsection \<open>The two modes and the two naming conventions\<close>

text \<open>
  C1 at a failing input: the upstream feature under its full name and the request field
  \<open>int_val\<close>, two rows, the transformation \<open>output = conv_rate + int_val\<close>.
  Tabular mode returns the sums 11 and 22. Row mode raises KeyError, with either naming
  flag: line 389 reads \<^verbatim>\<open>name_map[k]\<close> for every key of the input, and
  \<open>int_val\<close>, which belongs to no projection, is not a key of \<open>name_map\<close>.
\<close>

theorem row_mode_raises_on_request_field:
  "get_transformed_features_df (example_view add_frame ''pandas'') example_input True =
     Inr [(''odfv__output'', [11, 22])] \<and>
   get_transformed_features_dict (example_view add_row ''python'') example_input True =
     Inl KeyError \<and>
   get_transformed_features_df (example_view add_frame ''pandas'') example_input False =
     Inr [(''output'', [11, 22])] \<and>
   get_transformed_features_dict (example_view add_row ''python'') example_input False =
     Inl KeyError"
  by (simp add: engine_defs example_defs Let_def)

text \<open>
  C2 at a failing input: row mode, the upstream feature under its full name, the
  transformation \<open>output = conv_rate + 1\<close> reporting its result under the short name.
  With \<open>full_feature_names\<close> the engine returns 2 and 3 under \<open>odfv__output\<close>;
  without it the engine raises KeyError, because line 406 evaluates
  \<^verbatim>\<open>row_output["odfv__output"]\<close> as the default of \<^verbatim>\<open>get\<close>.
\<close>

theorem row_mode_depends_on_full_feature_names:
  "get_transformed_features_dict (example_view incr_row ''python'')
       [(''stats__conv_rate'', [1, 2])] True =
     Inr [(''odfv__output'', [Some 2, Some 3])] \<and>
   get_transformed_features_dict (example_view incr_row ''python'')
       [(''stats__conv_rate'', [1, 2])] False =
     Inl KeyError"
  by (simp add: engine_defs example_defs Let_def upt_rec)

text \<open>
  C3 at a failing input: tabular mode, a transformation that returns the frame it was
  given with the output column added. The column \<open>conv_rate\<close> was not in the input and
  is not a declared output: the duplication step introduced it. It is in the result,
  because the \<^verbatim>\<open>drop\<close> of line 362 works on another frame and its result is
  discarded.
\<close>

theorem duplicated_column_in_result:
  "get_transformed_features_df (example_view add_column ''pandas'') example_input False =
     Inr [(''stats__conv_rate'', [1, 2]), (''int_val'', [10, 20]),
          (''conv_rate'', [1, 2]), (''output'', [11, 22])] \<and>
   ''conv_rate'' \<notin> set (dict_keys example_input) \<and>
   ''conv_rate'' \<notin> set (map field_name (features (example_view add_column ''pandas'')))"
  by (simp add: engine_defs example_defs Let_def)

subsection \<open>Equal definitions\<close>

text \<open>
  A stand-in for \<^verbatim>\<open>BaseFeatureView.__eq__\<close>, to have a closed instance: it
  compares the attributes that \<^verbatim>\<open>OnDemandFeatureView.__init__\<close> hands to the base
  class (lines 115 to 121).
\<close>

definition base_feature_view_eq ::
  "'f on_demand_feature_view \<Rightarrow> 'f on_demand_feature_view \<Rightarrow> bool" where
  "base_feature_view_eq v w =
     (odfv_name v = odfv_name w \<and> features v = features w \<and> description v = description w \<and>
      dict_eq (tags v) (tags w) \<and> owner v = owner w)"

text \<open>
  C8 (as amended). Comparing with an object that is no OnDemandFeatureView raises
  TypeError. Two definitions compare equal exactly when the base class finds them equal,
  their projection dictionaries and their request-source dictionaries hold the same
  entries, their source texts \<open>udf_string\<close> are equal and their compiled codes
  \<open>co_code\<close> are equal. The mode is not compared.
\<close>

theorem odfv_eq_iff:
  assumes "distinct (map fst (source_feature_view_projections v))"
    and "distinct (map fst (source_feature_view_projections w))"
    and "distinct (map fst (source_request_sources v))"
    and "distinct (map fst (source_request_sources w))"
  shows "odfv_eq base_eq v None = Inl TypeError \<and>
         odfv_eq base_eq v (Some w) =
           Inr (base_eq v w \<and>
                map_of (source_feature_view_projections v) =
                  map_of (source_feature_view_projections w) \<and>
                map_of (source_request_sources v) = map_of (source_request_sources w) \<and>
                udf_string v = udf_string w \<and>
                co_code (udf v) = co_code (udf w))"
  using assms by (simp add: odfv_eq_def dict_eq_map_of)

theorem odfv_eq_iff_witness:
  "odfv_eq base_feature_view_eq (example_view add_frame ''pandas'') None = Inl TypeError \<and>
   odfv_eq base_feature_view_eq (example_view add_frame ''pandas'')
     (Some (example_view add_frame ''python'')) = Inr True"
  using odfv_eq_iff [of "example_view add_frame ''pandas''" "example_view add_frame ''python''"
                        base_feature_view_eq]
  by (simp add: example_view_def base_feature_view_eq_def dict_eq_def)

text \<open>
  C8 as stated fails: the same view with its source text formatted differently. The
  projections, the request sources, the declared outputs and the compiled code are equal,
  and \<^verbatim>\<open>__eq__\<close> returns False, because line 174 compares \<open>udf_string\<close>.
\<close>

definition example_reformatted :: "(dataframe \<Rightarrow> error + dataframe) on_demand_feature_view" where
  "example_reformatted =
     (example_view add_frame ''pandas'')\<lparr>udf_string := ''def odfv(inputs):    ...''\<rparr>"

theorem source_text_is_compared:
  "base_feature_view_eq (example_view add_frame ''pandas'') example_reformatted \<and>
   source_feature_view_projections example_reformatted =
     source_feature_view_projections (example_view add_frame ''pandas'') \<and>
   source_request_sources example_reformatted =
     source_request_sources (example_view add_frame ''pandas'') \<and>
   features example_reformatted = features (example_view add_frame ''pandas'') \<and>
   udf example_reformatted = udf (example_view add_frame ''pandas'') \<and>
   odfv_eq base_feature_view_eq (example_view add_frame ''pandas'') (Some example_reformatted)
     = Inr False"
  by (simp add: example_reformatted_def example_view_def base_feature_view_eq_def dict_eq_def
        odfv_eq_def)

end

